theory Spec2Isabelle
  imports Main "HOL-Library.AList"
begin

unbundle bit_operations_syntax

section \<open>JavaScript strings\<close>

text \<open>
  Strings are modelled as \<^typ>\<open>string\<close> over ASCII: the source identifiers, URLs and
  branch names of the registry are ASCII, where a JavaScript string, its UTF-8 encoding
  and its case mapping agree with the byte-wise functions below.
\<close>

definition toLowerChar :: "char \<Rightarrow> char" where
  "toLowerChar c =
     (case map_of (zip ''ABCDEFGHIJKLMNOPQRSTUVWXYZ'' ''abcdefghijklmnopqrstuvwxyz'') c of
        Some d \<Rightarrow> d
      | None \<Rightarrow> c)"

definition toLowerCase :: "string \<Rightarrow> string" where
  "toLowerCase s = map toLowerChar s"

text \<open>\<^verbatim>\<open>s.replace(/\/+$/, '')\<close>: every trailing slash is removed.\<close>

definition stripTrailingSlashes :: "string \<Rightarrow> string" where
  "stripTrailingSlashes s = rev (dropWhile (\<lambda>c. c = CHR ''/'') (rev s))"

text \<open>\<^verbatim>\<open>s.replace(/^https?:\/\//, '')\<close>: the pattern is case sensitive.\<close>

definition stripHttpPrefix :: "string \<Rightarrow> string" where
  "stripHttpPrefix s =
     (if take 7 s = ''http://'' then drop 7 s
      else if take 8 s = ''https://'' then drop 8 s
      else s)"


section \<open>The digest: SHA-256 as \<^verbatim>\<open>crypto.createHash('sha256')\<close> computes it\<close>

text \<open>
  The digest comes from the Node.js runtime. It is written out here after FIPS 180-4 so
  that source identifiers can be computed; 32-bit words are integers with the reduction
  modulo \<open>2 ^ 32\<close> written out, and the round constants are given in decimal.
\<close>

type_synonym sha_state = "int \<times> int \<times> int \<times> int \<times> int \<times> int \<times> int \<times> int"

definition K256 :: "int list" where
  "K256 = [
   1116352408, 1899447441, 3049323471, 3921009573, 961987163, 1508970993, 2453635748, 2870763221,
   3624381080, 310598401, 607225278, 1426881987, 1925078388, 2162078206, 2614888103, 3248222580,
   3835390401, 4022224774, 264347078, 604807628, 770255983, 1249150122, 1555081692, 1996064986,
   2554220882, 2821834349, 2952996808, 3210313671, 3336571891, 3584528711, 113926993, 338241895,
   666307205, 773529912, 1294757372, 1396182291, 1695183700, 1986661051, 2177026350, 2456956037,
   2730485921, 2820302411, 3259730800, 3345764771, 3516065817, 3600352804, 4094571909, 275423344,
   430227734, 506948616, 659060556, 883997877, 958139571, 1322822218, 1537002063, 1747873779,
   1955562222, 2024104815, 2227730452, 2361852424, 2428436474, 2756734187, 3204031479, 3329325298]"

definition H256 :: sha_state where
  "H256 = (1779033703, 3144134277, 1013904242, 2773480762,
           1359893119, 2600822924, 528734635, 1541459225)"

definition add32 :: "int \<Rightarrow> int \<Rightarrow> int" where
  "add32 x y = (x + y) mod 4294967296"

text \<open>\<open>rotr32 p x\<close> rotates the 32-bit word \<open>x\<close> right by \<open>n\<close> bits, where \<open>p = 2 ^ n\<close>.\<close>

definition rotr32 :: "int \<Rightarrow> int \<Rightarrow> int" where
  "rotr32 p x = x div p + (x mod p) * (4294967296 div p)"

definition sha_ch :: "int \<Rightarrow> int \<Rightarrow> int \<Rightarrow> int" where
  "sha_ch x y z = (x AND y) XOR ((4294967295 - x) AND z)"

definition sha_maj :: "int \<Rightarrow> int \<Rightarrow> int \<Rightarrow> int" where
  "sha_maj x y z = (x AND y) XOR (x AND z) XOR (y AND z)"

definition big_sigma0 :: "int \<Rightarrow> int" where
  "big_sigma0 x = rotr32 4 x XOR rotr32 8192 x XOR rotr32 4194304 x"

definition big_sigma1 :: "int \<Rightarrow> int" where
  "big_sigma1 x = rotr32 64 x XOR rotr32 2048 x XOR rotr32 33554432 x"

definition small_sigma0 :: "int \<Rightarrow> int" where
  "small_sigma0 x = rotr32 128 x XOR rotr32 262144 x XOR (x div 8)"

definition small_sigma1 :: "int \<Rightarrow> int" where
  "small_sigma1 x = rotr32 131072 x XOR rotr32 524288 x XOR (x div 1024)"

fun sha_rotate :: "int \<Rightarrow> int \<Rightarrow> sha_state \<Rightarrow> sha_state" where
  "sha_rotate t1 t2 (a, b, c, d, e, f, g, h) = (add32 t1 t2, a, b, c, add32 d t1, e, f, g)"

fun sha_round :: "sha_state \<Rightarrow> int \<Rightarrow> int \<Rightarrow> sha_state" where
  "sha_round (a, b, c, d, e, f, g, h) k w =
     sha_rotate (add32 (add32 (add32 h (big_sigma1 e)) (add32 (sha_ch e f g) k)) w)
                (add32 (big_sigma0 a) (sha_maj a b c)) (a, b, c, d, e, f, g, h)"

text \<open>The message schedule is kept as a window of the sixteen most recent words.\<close>

definition sha_next_word :: "int list \<Rightarrow> int" where
  "sha_next_word w =
     add32 (add32 (small_sigma1 (w ! 14)) (w ! 9)) (add32 (small_sigma0 (w ! 1)) (w ! 0))"

fun sha_rounds :: "int list \<Rightarrow> int list \<Rightarrow> sha_state \<Rightarrow> sha_state" where
  "sha_rounds [] w s = s"
| "sha_rounds (k # ks) w s = sha_rounds ks (tl w @ [sha_next_word w]) (sha_round s k (hd w))"

fun sha_add :: "sha_state \<Rightarrow> sha_state \<Rightarrow> sha_state" where
  "sha_add (a, b, c, d, e, f, g, h) (a', b', c', d', e', f', g', h') =
     (add32 a a', add32 b b', add32 c c', add32 d d',
      add32 e e', add32 f f', add32 g g', add32 h h')"

definition sha_compress :: "sha_state \<Rightarrow> int list \<Rightarrow> sha_state" where
  "sha_compress h blk = sha_add h (sha_rounds K256 blk h)"

fun be_bytes :: "nat \<Rightarrow> int \<Rightarrow> int list" where
  "be_bytes 0 v = []"
| "be_bytes (Suc k) v = be_bytes k (v div 256) @ [v mod 256]"

definition sha_pad :: "int list \<Rightarrow> int list" where
  "sha_pad m =
     (let l = length m; z = (55 + 64 - l mod 64) mod 64
      in m @ [128] @ replicate z 0 @ be_bytes 8 (8 * int l))"

fun sha_words :: "int list \<Rightarrow> int list" where
  "sha_words (a # b # c # d # r) = (((a * 256 + b) * 256 + c) * 256 + d) # sha_words r"
| "sha_words _ = []"

fun sha_blocks :: "nat \<Rightarrow> int list \<Rightarrow> int list list" where
  "sha_blocks 0 ws = []"
| "sha_blocks (Suc n) ws = take 16 ws # sha_blocks n (drop 16 ws)"

definition sha256 :: "int list \<Rightarrow> sha_state" where
  "sha256 m = (let ws = sha_words (sha_pad m)
               in foldl sha_compress H256 (sha_blocks (length ws div 16) ws))"

definition hexChars :: string where
  "hexChars = ''0123456789abcdef''"

definition hexdigit :: "int \<Rightarrow> char" where
  "hexdigit n = hexChars ! nat n"

definition hex32 :: "int \<Rightarrow> string" where
  "hex32 w = map (\<lambda>p. hexdigit ((w div p) mod 16))
               [268435456, 16777216, 1048576, 65536, 4096, 256, 16, 1]"

fun sha_state_list :: "sha_state \<Rightarrow> int list" where
  "sha_state_list (a, b, c, d, e, f, g, h) = [a, b, c, d, e, f, g, h]"

text \<open>\<^verbatim>\<open>crypto.createHash('sha256').update(s).digest('hex')\<close>\<close>

definition sha256_hex :: "string \<Rightarrow> string" where
  "sha256_hex s = concat (map hex32 (sha_state_list (sha256 (map of_char s))))"

section \<open>Source identifiers (src/utils/sourceIdUtils.ts)\<close>

text \<open>
  \<^verbatim>\<open>new URL(url)\<close> is the runtime's URL parser. It is a parameter of the model: a
  function that returns the components the code reads, or \<open>None\<close> where the
  constructor throws.
\<close>

record url_parts =
  protocol :: string
  hostname :: string
  pathname :: string

type_synonym url_parser = "string \<Rightarrow> url_parts option"

record SourceIdConfig =
  branch :: "string option"
  collectionsPath :: "string option"

definition normalizeUrl :: "url_parser \<Rightarrow> string \<Rightarrow> string" where
  "normalizeUrl parse url =
     (case parse url of
        Some parsedUrl \<Rightarrow>
          toLowerCase (hostname parsedUrl) @ stripTrailingSlashes (toLowerCase (pathname parsedUrl))
      | None \<Rightarrow> stripTrailingSlashes (stripHttpPrefix (toLowerCase url)))"


text \<open>\<^verbatim>\<open>!branch\<close> holds for an absent branch and for the empty string.\<close>

definition normalizeBranch :: "string option \<Rightarrow> string" where
  "normalizeBranch b =
     (case b of
        None \<Rightarrow> ''main''
      | Some br \<Rightarrow> if br = [] \<or> br = ''master'' then ''main'' else br)"

text \<open>
  \<^verbatim>\<open>config?.branch\<close>, \<^verbatim>\<open>config?.collectionsPath\<close> and \<^verbatim>\<open>p || 'collections'\<close>, which
  takes the default for an absent path and for the empty string.
\<close>

definition configBranch :: "SourceIdConfig option \<Rightarrow> string option" where
  "configBranch config = (case config of None \<Rightarrow> None | Some c \<Rightarrow> branch c)"

definition configCollectionsPath :: "SourceIdConfig option \<Rightarrow> string option" where
  "configCollectionsPath config = (case config of None \<Rightarrow> None | Some c \<Rightarrow> collectionsPath c)"

definition orCollections :: "string option \<Rightarrow> string" where
  "orCollections p =
     (case p of
        None \<Rightarrow> ''collections''
      | Some s \<Rightarrow> if s = [] then ''collections'' else s)"

definition generateHubSourceId ::
  "url_parser \<Rightarrow> string \<Rightarrow> string \<Rightarrow> SourceIdConfig option \<Rightarrow> string" where
  "generateHubSourceId parse sourceType url config =
     (let normalizedUrl = normalizeUrl parse url;
          br = normalizeBranch (configBranch config);
          cp = orCollections (configCollectionsPath config);
          hash = take 12 (sha256_hex
                   (sourceType @ '':'' @ normalizedUrl @ '':'' @ br @ '':'' @ cp))
      in sourceType @ ''-'' @ hash)"


text \<open>
  The values of \<^verbatim>\<open>new URL(s)\<close> at the URLs of the examples in this theory. The
  theorems take the parser as a parameter; this table only supplies it at the listed
  inputs.
\<close>

definition exampleUrls :: url_parser where
  "exampleUrls s =
     (if s = ''https://github.com/owner/repo''
        then Some \<lparr>protocol = ''https:'', hostname = ''github.com'', pathname = ''/owner/repo''\<rparr>
      else if s = ''https://GitHub.com/Owner/Repo''
        then Some \<lparr>protocol = ''https:'', hostname = ''github.com'', pathname = ''/Owner/Repo''\<rparr>
      else if s = ''https://GitHub.com/Owner/Repo/''
        then Some \<lparr>protocol = ''https:'', hostname = ''github.com'', pathname = ''/Owner/Repo/''\<rparr>
      else None)"

section \<open>The migration registry (src/services/MigrationRegistry.ts)\<close>

datatype migration_status = Pending | Completed | Skipped

record MigrationRecord =
  status :: migration_status
  completedAt :: "string option"
  details :: "string option"

datatype log_level = LogDebug | LogInfo | LogWarn | LogError

type_synonym log_entry = "log_level \<times> string"

text \<open>
  The extension host as the registry sees it: the value stored in
  \<^verbatim>\<open>context.globalState\<close> under \<^verbatim>\<open>STATE_KEY\<close> (a missing value reads as the empty
  object), the messages handed to the logger, and the clock that
  \<^verbatim>\<open>new Date().toISOString()\<close> reads. Whatever else a migration function can touch is
  the extension part of the record.
\<close>

record host =
  migrations :: "string \<rightharpoonup> MigrationRecord"
  logs :: "log_entry list"
  clock :: string

definition logger :: "log_level \<Rightarrow> string \<Rightarrow> 'a host_scheme \<Rightarrow> 'a host_scheme" where
  "logger level msg h = h\<lparr>logs := logs h @ [(level, msg)]\<rparr>"

definition quoted :: "string \<Rightarrow> string" where
  "quoted s = [CHR 0x27] @ s @ [CHR 0x27]"

definition statusText :: "migration_status \<Rightarrow> string" where
  "statusText st = (case st of Pending \<Rightarrow> ''pending'' | Completed \<Rightarrow> ''completed''
                    | Skipped \<Rightarrow> ''skipped'')"

definition getMigrationState :: "'a host_scheme \<Rightarrow> (string \<rightharpoonup> MigrationRecord)" where
  "getMigrationState h = migrations h"

definition isMigrationComplete :: "string \<Rightarrow> 'a host_scheme \<Rightarrow> bool" where
  "isMigrationComplete name h =
     (case getMigrationState h name of None \<Rightarrow> False | Some r \<Rightarrow> status r = Completed)"

text \<open>
  A promise that settles is a value of a sum: \<open>Inl e\<close> is a rejection with the error
  \<open>e\<close>, \<open>Inr v\<close> a resolution. \<^verbatim>\<open>globalState.update\<close> stores the value and resolves.
\<close>

definition markMigrationComplete ::
  "string \<Rightarrow> string option \<Rightarrow> 'a host_scheme \<Rightarrow> ('e + unit) \<times> 'a host_scheme" where
  "markMigrationComplete name det h =
     (let state = getMigrationState h;
          state' = state(name \<mapsto> \<lparr>status = Completed, completedAt = Some (clock h), details = det\<rparr>)
      in (Inr (), logger LogInfo (''Migration '' @ quoted name @ '' marked as completed'')
                    (h\<lparr>migrations := state'\<rparr>)))"

definition markMigrationSkipped ::
  "string \<Rightarrow> string option \<Rightarrow> 'a host_scheme \<Rightarrow> ('e + unit) \<times> 'a host_scheme" where
  "markMigrationSkipped name reason h =
     (let state = getMigrationState h;
          state' = state(name \<mapsto> \<lparr>status = Skipped, completedAt = Some (clock h), details = reason\<rparr>)
      in (Inr (), logger LogInfo
            (''Migration '' @ quoted name @ '' skipped: ''
               @ (case reason of None \<Rightarrow> ''no reason''
                  | Some r \<Rightarrow> if r = [] then ''no reason'' else r))
            (h\<lparr>migrations := state'\<rparr>)))"

text \<open>
  A migration function is any effectful computation: it takes the host to a new host and
  either resolves or throws.
\<close>

type_synonym ('e, 'a) migration_fn = "'a host_scheme \<Rightarrow> ('e + unit) \<times> 'a host_scheme"

definition runMigration ::
  "string \<Rightarrow> ('e, 'a) migration_fn \<Rightarrow> 'a host_scheme \<Rightarrow> ('e + unit) \<times> 'a host_scheme" where
  "runMigration name fn h =
     (let state = getMigrationState h;
          record = state name
      in if map_option status record = Some Completed \<or> map_option status record = Some Skipped
         then (Inr (), logger LogDebug
                 (''Migration '' @ quoted name @ '' already ''
                    @ (case record of Some r \<Rightarrow> statusText (status r) | None \<Rightarrow> ''undefined'')
                    @ '', skipping'') h)
         else
           (case fn (logger LogInfo (''Running migration '' @ quoted name @ ''...'') h) of
              (Inl error, h1) \<Rightarrow>
                (Inl error, logger LogError (''Migration '' @ quoted name @ '' failed'') h1)
            | (Inr ok, h1) \<Rightarrow>
                (case markMigrationComplete name None h1 of
                   (Inl error, h2) \<Rightarrow>
                     (Inl error, logger LogError (''Migration '' @ quoted name @ '' failed'') h2)
                 | (Inr marked, h2) \<Rightarrow> (Inr (), h2))))"

section \<open>The source-id normalization migration (src/unnamed/part_008)\<close>

text \<open>
  A configured source. Only the fields the migration reads are named; the others
  (enabled, priority, token, metadata, ...) are the extension part of the record.
\<close>

record RegistrySource =
  src_id :: string
  src_name :: string
  src_type :: string
  src_url :: string
  src_config :: "SourceIdConfig option"












section \<open>The URL validator (src/unnamed/part_010: UrlValidator)\<close>

datatype severity = SevError | SevWarning | SevSuccess

record UrlCheckResult =
  res_url :: string
  res_accessible :: bool
  res_statusCode :: "nat option"
  res_error :: "string option"
  res_severity :: severity
  res_message :: string

text \<open>An error object of the runtime, with the two properties the validator reads.\<close>

record js_error =
  err_code :: "string option"
  err_message :: string

text \<open>
  What the runtime reports for one HEAD request. Times are counted in ticks of a clock
  from the moment the request is sent; a response takes at least one tick.

  \<^item> \<open>Response d statusCode location after\<close>: the response callback runs \<open>d + 1\<close>
    ticks after the request was sent, with this status code (which the typings allow to
    be undefined) and this \<^verbatim>\<open>Location\<close> header. The callback never reads the response,
    so the request keeps its socket and its listeners, and \<open>after\<close> is what it emits
    next: nothing (the server has closed the connection), the \<^verbatim>\<open>timeout\<close> event
    (the connection is kept alive and its socket has been idle for the timeout), or an
    \<^verbatim>\<open>error\<close> event, in each case so many ticks after the response.
  \<^item> \<open>RequestError d e\<close>: an \<^verbatim>\<open>error\<close> event after \<open>d\<close> ticks and no response
    before it, or (with \<open>d = 0\<close>) an exception of \<^verbatim>\<open>request\<close> itself.
  \<^item> \<open>RequestTimeout d\<close>: the \<^verbatim>\<open>timeout\<close> event after \<open>d\<close> ticks and no response
    before it.
  \<^item> \<open>NoAnswer\<close>: none of these, ever (a server that stays silent, when the timeout
    is 0 and no idle timer runs).
\<close>

datatype follow_up =
  NoMoreEvents
| TimeoutEvent nat
| ErrorEvent nat js_error

datatype reply =
  Response nat "nat option" "string option" follow_up
| RequestError nat js_error
| RequestTimeout nat
| NoAnswer

text \<open>
  The runtime and the network are parameters of the model: the URL parser
  (\<^verbatim>\<open>new URL(url)\<close>), the resolution of a \<^verbatim>\<open>Location\<close> header against the requested URL
  (\<^verbatim>\<open>new URL(location, url).toString()\<close>, \<open>None\<close> where it throws), and the reply to a
  HEAD request sent with \<^verbatim>\<open>https\<close> (\<open>True\<close>) or \<^verbatim>\<open>http\<close> to a URL with a timeout.
\<close>

record net_env =
  parseUrl :: url_parser
  resolveUrl :: "string \<Rightarrow> string \<Rightarrow> string option"
  request :: "bool \<Rightarrow> string \<Rightarrow> nat \<Rightarrow> reply"

definition digitChar :: "nat \<Rightarrow> char" where
  "digitChar n = ''0123456789'' ! n"

fun showNat :: "nat \<Rightarrow> string" where
  "showNat n = (if n < 10 then [digitChar n] else showNat (n div 10) @ [digitChar (n mod 10)])"

declare showNat.simps [simp del]

text \<open>\<^verbatim>\<open>s.includes(pat)\<close>\<close>

fun str_includes :: "string \<Rightarrow> string \<Rightarrow> bool" where
  "str_includes [] pat = (pat = [])"
| "str_includes (c # cs) pat = (take (length pat) (c # cs) = pat \<or> str_includes cs pat)"

text \<open>
  The response callback follows a redirect when the status is 301, 302, 307 or 308 and
  the \<^verbatim>\<open>Location\<close> header is a non-empty string.
\<close>

definition redirectLocation :: "nat option \<Rightarrow> string option \<Rightarrow> string option" where
  "redirectLocation statusCode location =
     (if statusCode = Some 301 \<or> statusCode = Some 302 \<or> statusCode = Some 307
         \<or> statusCode = Some 308
      then (case location of
              None \<Rightarrow> None
            | Some l \<Rightarrow> if l = [] then None else Some l)
      else None)"

definition timeoutError :: "nat \<Rightarrow> js_error" where
  "timeoutError timeout =
     \<lparr>err_code = Some ''ETIMEDOUT'',
      err_message = ''Request timeout after '' @ showNat timeout @ ''ms''\<rparr>"

definition invalidUrlError :: js_error where
  "invalidUrlError = \<lparr>err_code = Some ''ERR_INVALID_URL'', err_message = ''Invalid URL''\<rparr>"

text \<open>
  A promise settles once: \<open>(t, Inr status)\<close> when it is resolved and \<open>(t, Inl error)\<close>
  when it is rejected, \<open>t\<close> ticks after it was created.
\<close>

type_synonym settled = "nat \<times> (js_error + nat)"

text \<open>Only what has happened by the deadline is known.\<close>

definition within :: "nat \<Rightarrow> settled option \<Rightarrow> settled option" where
  "within deadline s =
     (case s of
        None \<Rightarrow> None
      | Some (t, r) \<Rightarrow> if t \<le> deadline then Some (t, r) else None)"

text \<open>A promise created \<open>d\<close> ticks after the one that adopts its outcome.\<close>

definition delayed :: "nat \<Rightarrow> settled option \<Rightarrow> settled option" where
  "delayed d s = (case s of None \<Rightarrow> None | Some (t, r) \<Rightarrow> Some (d + t, r))"

text \<open>
  The listeners \<^verbatim>\<open>req.on('error', ...)\<close> and \<^verbatim>\<open>req.on('timeout', ...)\<close> reject the
  promise with the error, or with the \<^verbatim>\<open>ETIMEDOUT\<close> error made from the timeout.
\<close>

definition followUp :: "nat \<Rightarrow> follow_up \<Rightarrow> settled option" where
  "followUp timeout after =
     (case after of
        NoMoreEvents \<Rightarrow> None
      | TimeoutEvent k \<Rightarrow> Some (k, Inl (timeoutError timeout))
      | ErrorEvent k e \<Rightarrow> Some (k, Inl e))"

text \<open>
  When a redirect is followed, the promise is settled by
  \<^verbatim>\<open>this.makeRequest(redirectUrl, timeout).then(resolve).catch(reject)\<close> or by a listener
  of the request that was redirected, whichever calls first; the later call has no
  effect. (Of two calls in the same tick the one of the chain is taken.)
\<close>

definition settleFirst :: "settled option \<Rightarrow> settled option \<Rightarrow> settled option" where
  "settleFirst chain event =
     (case chain of
        None \<Rightarrow> event
      | Some (t, r) \<Rightarrow>
          (case event of
             None \<Rightarrow> Some (t, r)
           | Some (k, e) \<Rightarrow> if k < t then Some (k, e) else Some (t, r)))"

text \<open>
  \<^verbatim>\<open>makeRequest\<close> returns a promise. \<open>makeRequest env deadline url timeout\<close> is
  \<open>Some (t, outcome)\<close> when the promise has settled within \<open>deadline\<close> ticks, at
  tick \<open>t\<close>, and \<open>None\<close> while it is pending; the promise never settles when it is
  pending at every deadline. An exception in the response callback (a \<^verbatim>\<open>Location\<close>
  that does not resolve to a URL) is thrown outside the promise, which is then left to
  the listeners of the request.
\<close>

function makeRequest :: "net_env \<Rightarrow> nat \<Rightarrow> string \<Rightarrow> nat \<Rightarrow> settled option" where
  "makeRequest env deadline url timeout =
     (case parseUrl env url of
        None \<Rightarrow> Some (0, Inl invalidUrlError)
      | Some parsedUrl \<Rightarrow>
          (case request env (protocol parsedUrl = ''https:'') url timeout of
             Response d statusCode location after \<Rightarrow>
               if deadline < Suc d then None
               else
                 (case redirectLocation statusCode location of
                    Some l \<Rightarrow>
                      delayed (Suc d) (within (deadline - Suc d)
                        (settleFirst
                           (case resolveUrl env l url of
                              None \<Rightarrow> None
                            | Some redirectUrl \<Rightarrow>
                                makeRequest env (deadline - Suc d) redirectUrl timeout)
                           (followUp timeout after)))
                  | None \<Rightarrow> Some (Suc d, Inr (case statusCode of None \<Rightarrow> 0 | Some n \<Rightarrow> n)))
           | RequestError d e \<Rightarrow> within deadline (Some (d, Inl e))
           | RequestTimeout d \<Rightarrow> within deadline (Some (d, Inl (timeoutError timeout)))
           | NoAnswer \<Rightarrow> None))"
  by pat_completeness auto

termination
  by (relation "measure (\<lambda>(env, deadline, url, timeout). deadline)") auto

declare makeRequest.simps [simp del]

definition truthy :: "string option \<Rightarrow> bool" where
  "truthy s = (case s of None \<Rightarrow> False | Some t \<Rightarrow> t \<noteq> [])"

definition categorizeError :: "js_error \<Rightarrow> string" where
  "categorizeError e =
     (let code = err_code e; message = err_message e in
      if code = Some ''ENOTFOUND'' then ''DNS lookup failed - Invalid domain''
      else if code = Some ''ETIMEDOUT'' then ''Connection timeout - Unreachable''
      else if code = Some ''ECONNREFUSED'' then ''Connection refused - Server not responding''
      else if code = Some ''ECONNRESET'' then ''Connection reset - Server closed connection''
      else if str_includes message ''Invalid URL'' then ''Invalid URL format''
      else if code = Some ''CERT_HAS_EXPIRED'' \<or> str_includes message ''certificate''
        then ''SSL certificate error''
      else if truthy code then ''Network error: '' @ (case code of Some c \<Rightarrow> c | None \<Rightarrow> [])
      else ''Connection error: '' @ message)"

definition defaultTimeout :: nat where
  "defaultTimeout = 10000"

text \<open>
  \<^verbatim>\<open>checkUrl\<close> returns a promise that is never rejected: \<open>checkUrl env deadline url
  timeout\<close> is the result it has resolved to within \<open>deadline\<close> ticks, and \<open>None\<close>
  while it is pending.
\<close>

definition checkUrl ::
  "net_env \<Rightarrow> nat \<Rightarrow> string \<Rightarrow> nat option \<Rightarrow> UrlCheckResult option" where
  "checkUrl env deadline url timeoutArg =
     (let timeout = (case timeoutArg of None \<Rightarrow> defaultTimeout | Some t \<Rightarrow> t) in
      case parseUrl env url of
        None \<Rightarrow>
          Some \<lparr>res_url = url, res_accessible = False, res_statusCode = None,
                res_error = Some ''Invalid URL format'', res_severity = SevError,
                res_message = ''Invalid URL format''\<rparr>
      | Some parsedUrl \<Rightarrow>
          if protocol parsedUrl \<noteq> ''http:'' \<and> protocol parsedUrl \<noteq> ''https:''
          then Some \<lparr>res_url = url, res_accessible = False, res_statusCode = None,
                res_error = Some ''Unsupported protocol'', res_severity = SevError,
                res_message = ''Unsupported protocol: '' @ protocol parsedUrl
                                @ ''. Only HTTP/HTTPS supported''\<rparr>
          else
            (case makeRequest env deadline url timeout of
               None \<Rightarrow> None
             | Some (t, Inr statusCode) \<Rightarrow>
                 if 200 \<le> statusCode \<and> statusCode < 300
                 then Some \<lparr>res_url = url, res_accessible = True,
                        res_statusCode = Some statusCode, res_error = None,
                        res_severity = SevSuccess, res_message = ''Accessible''\<rparr>
                 else if statusCode = 401 \<or> statusCode = 403
                 then Some \<lparr>res_url = url, res_accessible = False,
                        res_statusCode = Some statusCode, res_error = None,
                        res_severity = SevWarning,
                        res_message = ''Private/Access Denied - Expected for private repositories''\<rparr>
                 else if statusCode = 404
                 then Some \<lparr>res_url = url, res_accessible = False,
                        res_statusCode = Some statusCode, res_error = Some ''Not Found'',
                        res_severity = SevError, res_message = ''Not Found - URL is broken''\<rparr>
                 else Some \<lparr>res_url = url, res_accessible = False,
                        res_statusCode = Some statusCode,
                        res_error = Some (''HTTP '' @ showNat statusCode),
                        res_severity = SevError,
                        res_message = ''HTTP Error '' @ showNat statusCode\<rparr>
             | Some (t, Inl error) \<Rightarrow>
                 Some \<lparr>res_url = url, res_accessible = False, res_statusCode = None,
                       res_error = Some (err_message error), res_severity = SevError,
                       res_message = categorizeError error\<rparr>))"

text \<open>
  \<^verbatim>\<open>Promise.all\<close> over promises that never reject: it resolves to the results in the
  order of the promises once all of them have resolved, and is pending until then.
\<close>

fun promiseAll :: "'a option list \<Rightarrow> 'a list option" where
  "promiseAll [] = Some []"
| "promiseAll (p # ps) =
     (case p of
        None \<Rightarrow> None
      | Some v \<Rightarrow> (case promiseAll ps of None \<Rightarrow> None | Some vs \<Rightarrow> Some (v # vs)))"

text \<open>All checks are started in the same tick, by \<^verbatim>\<open>urls.map\<close>.\<close>

definition checkUrls ::
  "net_env \<Rightarrow> nat \<Rightarrow> string list \<Rightarrow> nat option \<Rightarrow> UrlCheckResult list option" where
  "checkUrls env deadline urls timeout =
     promiseAll (map (\<lambda>url. checkUrl env deadline url timeout) urls)"

section \<open>The OLAF competencies adapter (src/unnamed/part_007: OlafCompetenciesAdapter)\<close>

record Bundle =
  bundle_id :: string
  bundle_name :: string
  bundle_version :: string
  bundle_description :: string
  bundle_author :: string
  bundle_sourceId :: string
  bundle_environments :: "string list"
  bundle_tags :: "string list"
  bundle_downloads :: "nat option"
  bundle_rating :: "nat option"
  bundle_lastUpdated :: string
  bundle_size :: string
  bundle_dependencies :: "string list"
  bundle_homepage :: "string option"
  bundle_repository :: "string option"
  bundle_license :: string
  bundle_manifestUrl :: string
  bundle_downloadUrl :: string

text \<open>
  The adapter's configuration after the constructor has put the defaults in, and the
  parts of a manifest and of a tree listing that the adapter reads. Every property of a
  manifest may be missing at run time, whatever the interface declares.
\<close>

record OlafConfig =
  olaf_branch :: string
  olaf_basePath :: string
  olaf_collectionFilter :: string

record OlafManifest =
  manifest_id :: "string option"
  manifest_name :: "string option"
  manifest_version :: "string option"
  manifest_description :: "string option"
  manifest_author :: "string option"
  manifest_tags :: "string list option"

record TreeNode =
  node_path :: string
  node_type :: string

record GitTreeResponse =
  tree_sha :: string
  tree :: "TreeNode list"

type_synonym headers = "(string \<times> string) list"

datatype http_reply =
  HttpResponse "nat option" string
| HttpError js_error

text \<open>
  The runtime and the network, as parameters: the URL parser, \<^verbatim>\<open>encodeURIComponent\<close>,
  the answer to a GET request (a response with its status and body once it has ended, or
  an \<^verbatim>\<open>error\<close> event), \<^verbatim>\<open>JSON.parse\<close> at the three types the adapter reads (\<open>None\<close>
  where it throws; a manifest may parse to \<^verbatim>\<open>null\<close>, a ref may lack its
  \<^verbatim>\<open>object.sha\<close>), and the clock.
\<close>

record olaf_env =
  urlParser :: url_parser
  encodeURIComponent :: "string \<Rightarrow> string"
  httpsGet :: "string \<Rightarrow> headers \<Rightarrow> http_reply"
  parseTreeJson :: "string \<Rightarrow> GitTreeResponse option"
  parseRefJson :: "string \<Rightarrow> string option option"
  parseManifestJson :: "string \<Rightarrow> OlafManifest option option"
  dateNow :: int
  dateIso :: string

text \<open>
  The adapter: its source, the token that \<^verbatim>\<open>getAuthToken\<close> of the base class returns,
  its configuration and its cache of bundles with the time it was filled.
\<close>

record 'a OlafAdapter =
  adapterSource :: "'a RegistrySource_scheme"
  adapterPrivate :: bool
  adapterToken :: "string option"
  adapterConfig :: OlafConfig
  adapterCache :: "(int \<times> Bundle list) option"

definition CACHE_TTL :: int where
  "CACHE_TTL = 5 * 60 * 1000"

text \<open>\<^verbatim>\<open>x || d\<close> on strings that may be undefined.\<close>

definition orElse :: "string option \<Rightarrow> string \<Rightarrow> string" where
  "orElse x d = (case x of None \<Rightarrow> d | Some s \<Rightarrow> if s = [] then d else s)"

text \<open>The constructor's defaults, from the raw \<^verbatim>\<open>config\<close> of the source.\<close>

definition olafConfigOf :: "string option \<Rightarrow> string option \<Rightarrow> string option \<Rightarrow> OlafConfig" where
  "olafConfigOf rawBranch rawBasePath rawFilter =
     \<lparr>olaf_branch = orElse rawBranch ''main'',
      olaf_basePath = orElse rawBasePath ''olaf-core/competencies'',
      olaf_collectionFilter = orElse rawFilter []\<rparr>"

definition getHeaders :: "('a, 'b) OlafAdapter_scheme \<Rightarrow> headers" where
  "getHeaders adapter =
     (let hs = [(''User-Agent'', ''Prompt-Registry-VSCode-Extension/1.0''),
                (''Accept'', ''application/json'')]
      in if truthy (adapterToken adapter)
         then AList.update ''Authorization''
                (''Bearer '' @ (case adapterToken adapter of Some t \<Rightarrow> t | None \<Rightarrow> [])) hs
         else if adapterPrivate adapter then AList.update ''Authorization'' [] hs
         else hs)"

definition newError :: "string \<Rightarrow> js_error" where
  "newError msg = \<lparr>err_code = None, err_message = msg\<rparr>"

text \<open>\<^verbatim>\<open>s.split(c)\<close> for a one-character separator.\<close>

definition splitOn :: "char \<Rightarrow> string \<Rightarrow> string list" where
  "splitOn c s =
     foldr (\<lambda>x acc. if x = c then [] # acc else (x # hd acc) # tl acc) s [[]]"

definition startsWith :: "string \<Rightarrow> string \<Rightarrow> bool" where
  "startsWith s p = (take (length p) s = p)"

definition endsWith :: "string \<Rightarrow> string \<Rightarrow> bool" where
  "endsWith s p = (length p \<le> length s \<and> drop (length s - length p) s = p)"

text \<open>\<^verbatim>\<open>s.replace(/^\//, '')\<close>, \<^verbatim>\<open>s.replace(/\.git$/, '')\<close> and \<^verbatim>\<open>s.replace(/^\/+|\/+$/g, '')\<close>\<close>

definition stripLeadingSlash :: "string \<Rightarrow> string" where
  "stripLeadingSlash s = (case s of [] \<Rightarrow> [] | c # cs \<Rightarrow> if c = CHR ''/'' then cs else s)"

definition stripGitSuffix :: "string \<Rightarrow> string" where
  "stripGitSuffix s = (if endsWith s ''.git'' then take (length s - 4) s else s)"

definition stripSlashes :: "string \<Rightarrow> string" where
  "stripSlashes s = stripTrailingSlashes (dropWhile (\<lambda>c. c = CHR ''/'') s)"

definition isSpace :: "char \<Rightarrow> bool" where
  "isSpace c = (c \<in> set [CHR 0x20, CHR 0x09, CHR 0x0A, CHR 0x0B, CHR 0x0C, CHR 0x0D])"

definition trim :: "string \<Rightarrow> string" where
  "trim s = rev (dropWhile isSpace (rev (dropWhile isSpace s)))"

text \<open>\<^verbatim>\<open>path.substring(0, path.lastIndexOf('/'))\<close>: empty when the path has no slash.\<close>

definition dirOf :: "string \<Rightarrow> string" where
  "dirOf path = rev (drop 1 (dropWhile (\<lambda>c. c \<noteq> CHR ''/'') (rev path)))"

definition fetchJson ::
  "(string \<Rightarrow> 'v option) \<Rightarrow> olaf_env \<Rightarrow> string \<Rightarrow> headers \<Rightarrow> js_error + 'v" where
  "fetchJson parse env url h =
     (case httpsGet env url h of
        HttpError e \<Rightarrow> Inl e
      | HttpResponse statusCode body \<Rightarrow>
          (let status = (case statusCode of None \<Rightarrow> 0 | Some n \<Rightarrow> n)
           in if 200 \<le> status \<and> status < 300
              then (case parse body of
                      Some v \<Rightarrow> Inr v
                    | None \<Rightarrow> Inl (newError (''Invalid JSON from '' @ url)))
              else Inl (newError (''HTTP '' @ showNat status @ '' for '' @ url))))"

definition parseGitHubUrl :: "olaf_env \<Rightarrow> string \<Rightarrow> js_error + string \<times> string" where
  "parseGitHubUrl env url =
     (case urlParser env url of
        None \<Rightarrow> Inl (newError ''Invalid GitHub URL'')
      | Some u \<Rightarrow>
          (let parts = splitOn CHR ''/'' (stripGitSuffix (stripLeadingSlash (pathname u)))
           in if hostname u \<noteq> ''github.com'' \<or> length parts < 2
              then Inl (newError ''Invalid GitHub URL'')
              else Inr (parts ! 0, parts ! 1)))"

definition fetchRefSha ::
  "olaf_env \<Rightarrow> ('a, 'b) OlafAdapter_scheme \<Rightarrow> string \<Rightarrow> string \<Rightarrow> string \<Rightarrow> js_error + string" where
  "fetchRefSha env adapter owner repo br =
     (let hs = AList.update ''Accept'' ''application/vnd.github+json'' (getHeaders adapter);
          refUrl = ''https://api.github.com/repos/'' @ owner @ ''/'' @ repo
                     @ ''/git/refs/heads/'' @ encodeURIComponent env br
      in case fetchJson (parseRefJson env) env refUrl hs of
           Inl e \<Rightarrow> Inl e
         | Inr sha \<Rightarrow>
             if \<not> truthy sha
             then Inl (newError (''Failed to resolve ref for branch '' @ quoted br))
             else Inr (case sha of Some s \<Rightarrow> s | None \<Rightarrow> []))"

definition fetchGitTree ::
  "olaf_env \<Rightarrow> ('a, 'b) OlafAdapter_scheme \<Rightarrow> string \<Rightarrow> string \<Rightarrow> string
     \<Rightarrow> js_error + GitTreeResponse" where
  "fetchGitTree env adapter owner repo br =
     (let hs = AList.update ''Accept'' ''application/vnd.github+json'' (getHeaders adapter);
          byRefUrl = ''https://api.github.com/repos/'' @ owner @ ''/'' @ repo
                       @ ''/git/trees/'' @ encodeURIComponent env br @ ''?recursive=1''
      in case fetchJson (parseTreeJson env) env byRefUrl hs of
           Inr t \<Rightarrow> Inr t
         | Inl e \<Rightarrow>
             (case fetchRefSha env adapter owner repo br of
                Inl e' \<Rightarrow> Inl e'
              | Inr sha \<Rightarrow>
                  fetchJson (parseTreeJson env) env
                    (''https://api.github.com/repos/'' @ owner @ ''/'' @ repo
                       @ ''/git/trees/'' @ sha @ ''?recursive=1'') hs))"

definition rawGitHubUrl :: "olaf_env \<Rightarrow> string \<Rightarrow> string \<Rightarrow> string \<Rightarrow> string \<Rightarrow> string" where
  "rawGitHubUrl env owner repo br path =
     ''https://raw.githubusercontent.com/'' @ owner @ ''/'' @ repo @ ''/''
       @ encodeURIComponent env br @ ''/'' @ path"

text \<open>
  The first loop of \<^verbatim>\<open>fetchBundles\<close>: the directories of the manifest files under the
  base path, as a \<^verbatim>\<open>Set\<close> (insertion order, no duplicates).
\<close>

fun competencyDirs :: "string \<Rightarrow> TreeNode list \<Rightarrow> string list \<Rightarrow> string list" where
  "competencyDirs base [] dirs = dirs"
| "competencyDirs base (node # nodes) dirs =
     (if node_type node = ''blob'' \<and> startsWith (node_path node) base
         \<and> endsWith (node_path node) ''competency-manifest.json''
      then (let dir = dirOf (node_path node)
            in competencyDirs base nodes (if dir \<in> set dirs then dirs else dirs @ [dir]))
      else competencyDirs base nodes dirs)"

definition filterDirs :: "string \<Rightarrow> string \<Rightarrow> string list \<Rightarrow> string list" where
  "filterDirs base collectionFilter dirs =
     (let flt = trim collectionFilter
      in filter (\<lambda>p. if flt = [] then True
                      else takeWhile (\<lambda>c. c \<noteq> CHR ''/'') (drop (length base + 1) p) = flt) dirs)"

text \<open>\<^verbatim>\<open>manifest?.id\<close> and its like, on a manifest that may be \<^verbatim>\<open>null\<close>.\<close>

definition manifestField ::
  "(OlafManifest \<Rightarrow> 'v option) \<Rightarrow> OlafManifest option \<Rightarrow> 'v option" where
  "manifestField field manifest = (case manifest of None \<Rightarrow> None | Some m \<Rightarrow> field m)"

definition valueOf :: "string option \<Rightarrow> string" where
  "valueOf x = (case x of None \<Rightarrow> [] | Some s \<Rightarrow> s)"

definition manifestBundle ::
  "olaf_env \<Rightarrow> ('a, 'b) OlafAdapter_scheme \<Rightarrow> OlafManifest option \<Rightarrow> string \<Rightarrow> Bundle" where
  "manifestBundle env adapter manifest manifestUrl =
     \<lparr>bundle_id = valueOf (manifestField manifest_id manifest),
      bundle_name = valueOf (manifestField manifest_name manifest),
      bundle_version = valueOf (manifestField manifest_version manifest),
      bundle_description = orElse (manifestField manifest_description manifest) ''OLAF competency'',
      bundle_author = orElse (manifestField manifest_author manifest) ''Unknown'',
      bundle_sourceId = src_id (adapterSource adapter),
      bundle_environments = [''any''],
      bundle_tags = (case manifestField manifest_tags manifest of None \<Rightarrow> [] | Some ts \<Rightarrow> ts),
      bundle_downloads = Some 0,
      bundle_rating = Some 0,
      bundle_lastUpdated = dateIso env,
      bundle_size = ''n/a'',
      bundle_dependencies = [],
      bundle_homepage = Some (src_url (adapterSource adapter)),
      bundle_repository = Some (src_url (adapterSource adapter)),
      bundle_license = ''Unknown'',
      bundle_manifestUrl = manifestUrl,
      bundle_downloadUrl = manifestUrl\<rparr>"

text \<open>The second loop: one manifest per directory, fetched, checked and mapped.\<close>

fun fetchManifests ::
  "olaf_env \<Rightarrow> ('a, 'b) OlafAdapter_scheme \<Rightarrow> string \<Rightarrow> string \<Rightarrow> string list
     \<Rightarrow> Bundle list \<Rightarrow> log_entry list \<Rightarrow> Bundle list \<times> log_entry list" where
  "fetchManifests env adapter owner repo [] bundles lg = (bundles, lg)"
| "fetchManifests env adapter owner repo (dir # dirs) bundles lg =
     (let manifestUrl = rawGitHubUrl env owner repo (olaf_branch (adapterConfig adapter))
                          (dir @ ''/competency-manifest.json'')
      in case fetchJson (parseManifestJson env) env manifestUrl (getHeaders adapter) of
           Inl err \<Rightarrow>
             fetchManifests env adapter owner repo dirs bundles
               (lg @ [(LogWarn, ''Failed parsing manifest for '' @ dir @ '':'')])
         | Inr manifest \<Rightarrow>
             if \<not> truthy (manifestField manifest_id manifest)
                \<or> \<not> truthy (manifestField manifest_name manifest)
                \<or> \<not> truthy (manifestField manifest_version manifest)
             then fetchManifests env adapter owner repo dirs bundles
                    (lg @ [(LogWarn, ''Skipping invalid competency at '' @ dir)])
             else fetchManifests env adapter owner repo dirs
                    (bundles @ [manifestBundle env adapter manifest manifestUrl]) lg)"

definition placeholderBundle :: "olaf_env \<Rightarrow> ('a, 'b) OlafAdapter_scheme \<Rightarrow> Bundle" where
  "placeholderBundle env adapter =
     \<lparr>bundle_id = src_id (adapterSource adapter) @ ''-placeholder'',
      bundle_name = ''OLAF Competencies (placeholder)'',
      bundle_version = ''0.0.0'',
      bundle_description = ''Configure repo/branch/basePath to load real competencies'',
      bundle_author = ''System'',
      bundle_sourceId = src_id (adapterSource adapter),
      bundle_environments = [''any''],
      bundle_tags = [''olaf''],
      bundle_downloads = None,
      bundle_rating = None,
      bundle_lastUpdated = dateIso env,
      bundle_size = ''n/a'',
      bundle_dependencies = [],
      bundle_homepage = None,
      bundle_repository = None,
      bundle_license = ''Unknown'',
      bundle_manifestUrl = src_url (adapterSource adapter),
      bundle_downloadUrl = src_url (adapterSource adapter)\<rparr>"

definition cacheFresh :: "olaf_env \<Rightarrow> ('a, 'b) OlafAdapter_scheme \<Rightarrow> bool" where
  "cacheFresh env adapter =
     (case adapterCache adapter of
        None \<Rightarrow> False
      | Some (timestamp, bundles) \<Rightarrow> dateNow env - timestamp < CACHE_TTL)"

definition fetchBundles ::
  "olaf_env \<Rightarrow> ('a, 'b) OlafAdapter_scheme \<Rightarrow> log_entry list
     \<Rightarrow> Bundle list \<times> ('a, 'b) OlafAdapter_scheme \<times> log_entry list" where
  "fetchBundles env adapter lg =
     (if cacheFresh env adapter
      then ((case adapterCache adapter of Some (timestamp, bundles) \<Rightarrow> bundles | None \<Rightarrow> []),
            adapter, lg)
      else
        (case parseGitHubUrl env (src_url (adapterSource adapter)) of
           Inl error \<Rightarrow>
             ([placeholderBundle env adapter], adapter,
              lg @ [(LogError, ''Failed to fetch OLAF competencies'')])
         | Inr (owner, repo) \<Rightarrow>
             (case fetchGitTree env adapter owner repo (olaf_branch (adapterConfig adapter)) of
                Inl error \<Rightarrow>
                  ([placeholderBundle env adapter], adapter,
                   lg @ [(LogError, ''Failed to fetch OLAF competencies'')])
              | Inr gitTree \<Rightarrow>
                  (let base = stripSlashes (olaf_basePath (adapterConfig adapter));
                       dirs = competencyDirs base (tree gitTree) [];
                       filteredDirs = filterDirs base (olaf_collectionFilter (adapterConfig adapter)) dirs
                   in case fetchManifests env adapter owner repo filteredDirs [] lg of
                        (bundles, lg') \<Rightarrow>
                          (bundles, adapter\<lparr>adapterCache := Some (dateNow env, bundles)\<rparr>, lg')))))"

text \<open>\<^verbatim>\<open>Buffer.from(s)\<close>: the bytes of the UTF-8 encoding of an ASCII string.\<close>

definition bufferFrom :: "string \<Rightarrow> nat list" where
  "bufferFrom s = map of_char s"

definition downloadBundle :: "('a, 'b) OlafAdapter_scheme \<Rightarrow> Bundle \<Rightarrow> nat list" where
  "downloadBundle adapter bundle = bufferFrom []"

section \<open>Source identifiers: what the specification says\<close>

text \<open>
  The normalized URL in the specification's words, written without the functions of
  the code: lowercasing by character code (\<open>A\<close> to \<open>Z\<close> are 65 to 90, and the
  lowercase letter is 32 further), a string without its trailing slashes (the string cut
  before its last run of slashes), and a string without a leading \<open>http://\<close> or
  \<open>https://\<close>.
\<close>

definition spec_lowerChar :: "char \<Rightarrow> char" where
  "spec_lowerChar c =
     (if 65 \<le> (of_char c :: nat) \<and> (of_char c :: nat) \<le> 90
      then char_of ((of_char c :: nat) + 32) else c)"

definition spec_lower :: "string \<Rightarrow> string" where
  "spec_lower s = map spec_lowerChar s"

definition spec_withoutTrailingSlashes :: "string \<Rightarrow> string" where
  "spec_withoutTrailingSlashes s =
     take (length s - length (takeWhile (\<lambda>c. c = CHR ''/'') (rev s))) s"

definition spec_withoutProtocol :: "string \<Rightarrow> string" where
  "spec_withoutProtocol s =
     (if take 7 s = ''http://'' then drop 7 s
      else if take 8 s = ''https://'' then drop 8 s
      else s)"

text \<open>
  The current normalization: lowercased host and lowercased path, the path without
  trailing slashes and nothing else of the URL; for a string that is not a URL, the
  lowercased string without protocol and trailing slashes.
\<close>

definition spec_normalizedUrl :: "url_parser \<Rightarrow> string \<Rightarrow> string" where
  "spec_normalizedUrl parse u =
     (case parse u of
        Some q \<Rightarrow> spec_lower (hostname q) @ spec_withoutTrailingSlashes (spec_lower (pathname q))
      | None \<Rightarrow> spec_withoutTrailingSlashes (spec_withoutProtocol (spec_lower u)))"



text \<open>
  The specification's reading of the identifier: the branch is \<open>main\<close> when it is
  absent or \<open>master\<close> and otherwise the branch; the collections path is the given
  one when present and otherwise \<open>collections\<close>.
\<close>

definition spec_branch :: "SourceIdConfig option \<Rightarrow> string" where
  "spec_branch config =
     (case config of
        None \<Rightarrow> ''main''
      | Some c \<Rightarrow> (case branch c of
                     None \<Rightarrow> ''main''
                   | Some b \<Rightarrow> if b = ''master'' then ''main'' else b))"

definition spec_collectionsPath :: "SourceIdConfig option \<Rightarrow> string" where
  "spec_collectionsPath config =
     (case config of
        None \<Rightarrow> ''collections''
      | Some c \<Rightarrow> (case collectionsPath c of None \<Rightarrow> ''collections'' | Some p \<Rightarrow> p))"

definition spec_hubSourceId ::
  "url_parser \<Rightarrow> string \<Rightarrow> string \<Rightarrow> SourceIdConfig option \<Rightarrow> string" where
  "spec_hubSourceId parse t u config =
     t @ ''-'' @ take 12 (sha256_hex
       (t @ '':'' @ spec_normalizedUrl parse u @ '':'' @ spec_branch config @ '':''
          @ spec_collectionsPath config))"

text \<open>
  The reading that the code has: the empty string counts as absent, for the branch and
  for the collections path.
\<close>

definition effectiveBranch :: "SourceIdConfig option \<Rightarrow> string" where
  "effectiveBranch config =
     (case config of
        None \<Rightarrow> ''main''
      | Some c \<Rightarrow> (case branch c of
                     None \<Rightarrow> ''main''
                   | Some b \<Rightarrow> if b = [] \<or> b = ''master'' then ''main'' else b))"

definition effectiveCollectionsPath :: "SourceIdConfig option \<Rightarrow> string" where
  "effectiveCollectionsPath config =
     (case config of
        None \<Rightarrow> ''collections''
      | Some c \<Rightarrow> (case collectionsPath c of
                     None \<Rightarrow> ''collections''
                   | Some p \<Rightarrow> if p = [] then ''collections'' else p))"

text \<open>A configuration has an empty field when its branch or collections path is \<open>''\<close>.\<close>

definition hasEmptyField :: "SourceIdConfig option \<Rightarrow> bool" where
  "hasEmptyField config =
     (case config of
        None \<Rightarrow> False
      | Some c \<Rightarrow> branch c = Some [] \<or> collectionsPath c = Some [])"

section \<open>The migration registry: what the specification says, and example hosts\<close>

text \<open>The record of a migration says that it need not run again.\<close>

definition alreadyRun :: "'a host_scheme \<Rightarrow> string \<Rightarrow> bool" where
  "alreadyRun h name =
     (case migrations h name of
        None \<Rightarrow> False
      | Some r \<Rightarrow> status r = Completed \<or> status r = Skipped)"

text \<open>The host at the moment the migration function is called.\<close>

definition atCall :: "string \<Rightarrow> 'a host_scheme \<Rightarrow> 'a host_scheme" where
  "atCall name h = logger LogInfo (''Running migration '' @ quoted name @ ''...'') h"

definition failingMigration :: "(string, unit) migration_fn" where
  "failingMigration h = (Inl ''disk full'', h)"

definition succeedingMigration :: "(string, unit) migration_fn" where
  "succeedingMigration h = (Inr (), h)"

definition freshHost :: host where
  "freshHost = \<lparr>migrations = Map.empty, logs = [], clock = ''2026-01-01T00:00:00.000Z''\<rparr>"

definition migratedHost :: host where
  "migratedHost = \<lparr>migrations = [''m1'' \<mapsto> \<lparr>status = Skipped, completedAt = None, details = None\<rparr>],
     logs = [], clock = ''2026-01-01T00:00:00.000Z''\<rparr>"

section \<open>The migration: what the specification says, and example sources\<close>















section \<open>The URL validator: what the specification says, and an example network\<close>

text \<open>
  The severity the specification gives to what the request comes to: success for a
  final status in \<open>[200, 300)\<close>, warning for 401 and 403, error for everything else.
\<close>

definition spec_severity :: "js_error + nat \<Rightarrow> severity" where
  "spec_severity outcome =
     (case outcome of
        Inl e \<Rightarrow> SevError
      | Inr statusCode \<Rightarrow>
          if 200 \<le> statusCode \<and> statusCode < 300 then SevSuccess
          else if statusCode = 401 \<or> statusCode = 403 then SevWarning
          else SevError)"

definition httpScheme :: "url_parts \<Rightarrow> bool" where
  "httpScheme p = (protocol p = ''http:'' \<or> protocol p = ''https:'')"

definition timeoutOf :: "nat option \<Rightarrow> nat" where
  "timeoutOf timeoutArg = (case timeoutArg of None \<Rightarrow> defaultTimeout | Some t \<Rightarrow> t)"



text \<open>
  A URL that is answered with a followed redirect to a URL of the list \<open>S\<close> (or with a
  \<^verbatim>\<open>Location\<close> that does not resolve), on a connection that emits nothing after the
  response.
\<close>

definition quietRedirectInto :: "net_env \<Rightarrow> nat \<Rightarrow> string list \<Rightarrow> string \<Rightarrow> bool" where
  "quietRedirectInto env timeout S url =
     (case parseUrl env url of
        None \<Rightarrow> False
      | Some p \<Rightarrow>
          (case request env (protocol p = ''https:'') url timeout of
             Response d statusCode location after \<Rightarrow>
               after = NoMoreEvents
               \<and> (case redirectLocation statusCode location of
                     None \<Rightarrow> False
                   | Some l \<Rightarrow>
                       (case resolveUrl env l url of
                          None \<Rightarrow> True
                        | Some next_url \<Rightarrow> next_url \<in> set S))
           | RequestError d e \<Rightarrow> False
           | RequestTimeout d \<Rightarrow> False
           | NoAnswer \<Rightarrow> False))"

text \<open>
  A site for the examples. \<open>/a\<close> and \<open>/b\<close> redirect to each other, \<open>/self\<close> to
  itself, \<open>/moved\<close> to \<open>/ok\<close>; \<open>/ok\<close> answers 200, \<open>/private\<close> 401 and
  \<open>/missing\<close> 404, each after 100 ticks. \<open>/slow1\<close> redirects to \<open>/slow2\<close>, that to
  \<open>/slow3\<close>, that to \<open>/slow4\<close>, which answers 200, each after 4000 ticks. The host
  \<open>silent.example\<close> accepts the connection and never answers; any other host does not
  resolve. The site either keeps its connections alive, and then the socket of a request
  whose response is not read times out when it has been idle for the timeout, or closes
  each connection after its response.
\<close>

definition siteUrls :: url_parser where
  "siteUrls s =
     (if s \<in> set [''https://example.com/a'', ''https://example.com/b'',
                  ''https://example.com/self'', ''https://example.com/moved'',
                  ''https://example.com/ok'', ''https://example.com/private'',
                  ''https://example.com/missing'', ''https://example.com/slow1'',
                  ''https://example.com/slow2'', ''https://example.com/slow3'',
                  ''https://example.com/slow4'']
        then Some \<lparr>protocol = ''https:'', hostname = ''example.com'', pathname = drop 19 s\<rparr>
      else if s = ''https://silent.example/''
        then Some \<lparr>protocol = ''https:'', hostname = ''silent.example'', pathname = ''/''\<rparr>
      else if s = ''https://nowhere.invalid/''
        then Some \<lparr>protocol = ''https:'', hostname = ''nowhere.invalid'', pathname = ''/''\<rparr>
      else if s = ''ftp://example.com/file''
        then Some \<lparr>protocol = ''ftp:'', hostname = ''example.com'', pathname = ''/file''\<rparr>
      else None)"

definition idle :: "bool \<Rightarrow> nat \<Rightarrow> follow_up" where
  "idle keepAlive timeout =
     (if keepAlive \<and> timeout \<noteq> 0 then TimeoutEvent timeout else NoMoreEvents)"

definition siteRequest :: "bool \<Rightarrow> bool \<Rightarrow> string \<Rightarrow> nat \<Rightarrow> reply" where
  "siteRequest keepAlive secure url timeout =
     (if url = ''https://example.com/a''
        then Response 99 (Some 302) (Some ''https://example.com/b'') (idle keepAlive timeout)
      else if url = ''https://example.com/b''
        then Response 99 (Some 302) (Some ''https://example.com/a'') (idle keepAlive timeout)
      else if url = ''https://example.com/self''
        then Response 99 (Some 301) (Some ''/self'') (idle keepAlive timeout)
      else if url = ''https://example.com/moved''
        then Response 99 (Some 302) (Some ''https://example.com/ok'') (idle keepAlive timeout)
      else if url = ''https://example.com/ok''
        then Response 99 (Some 200) None (idle keepAlive timeout)
      else if url = ''https://example.com/private''
        then Response 99 (Some 401) None (idle keepAlive timeout)
      else if url = ''https://example.com/missing''
        then Response 99 (Some 404) None (idle keepAlive timeout)
      else if url = ''https://example.com/slow1''
        then Response 3999 (Some 302) (Some ''/slow2'') (idle keepAlive timeout)
      else if url = ''https://example.com/slow2''
        then Response 3999 (Some 302) (Some ''/slow3'') (idle keepAlive timeout)
      else if url = ''https://example.com/slow3''
        then Response 3999 (Some 302) (Some ''/slow4'') (idle keepAlive timeout)
      else if url = ''https://example.com/slow4''
        then Response 3999 (Some 200) None (idle keepAlive timeout)
      else if url = ''https://silent.example/''
        then (if timeout = 0 then NoAnswer else RequestTimeout timeout)
      else RequestError 20 \<lparr>err_code = Some ''ENOTFOUND'',
             err_message = ''getaddrinfo ENOTFOUND''\<rparr>)"

definition siteResolve :: "string \<Rightarrow> string \<Rightarrow> string option" where
  "siteResolve location base =
     (if take 1 location = ''/'' then Some (''https://example.com'' @ location)
      else Some location)"

definition site :: "bool \<Rightarrow> net_env" where
  "site keepAlive =
     \<lparr>parseUrl = siteUrls, resolveUrl = siteResolve, request = siteRequest keepAlive\<rparr>"



section \<open>The OLAF adapter: what the specification says, and an example repository\<close>

text \<open>
  The located manifests are the directories the adapter visits; the manifest of a
  directory is what fetching and parsing its \<^verbatim>\<open>competency-manifest.json\<close> gives. A
  property is lacking when it is missing or the empty string, and a manifest is well
  formed when it could be fetched, parsed as JSON, and lacks neither id, name nor
  version.
\<close>

definition locatedDirs :: "('a, 'b) OlafAdapter_scheme \<Rightarrow> GitTreeResponse \<Rightarrow> string list" where
  "locatedDirs adapter gitTree =
     filterDirs (stripSlashes (olaf_basePath (adapterConfig adapter)))
       (olaf_collectionFilter (adapterConfig adapter))
       (competencyDirs (stripSlashes (olaf_basePath (adapterConfig adapter))) (tree gitTree) [])"

definition manifestUrlOf ::
  "olaf_env \<Rightarrow> ('a, 'b) OlafAdapter_scheme \<Rightarrow> string \<Rightarrow> string \<Rightarrow> string \<Rightarrow> string" where
  "manifestUrlOf env adapter owner repo dir =
     rawGitHubUrl env owner repo (olaf_branch (adapterConfig adapter))
       (dir @ ''/competency-manifest.json'')"

definition manifestAt ::
  "olaf_env \<Rightarrow> ('a, 'b) OlafAdapter_scheme \<Rightarrow> string \<Rightarrow> string \<Rightarrow> string
     \<Rightarrow> js_error + OlafManifest option" where
  "manifestAt env adapter owner repo dir =
     fetchJson (parseManifestJson env) env (manifestUrlOf env adapter owner repo dir)
       (getHeaders adapter)"

definition lacking :: "string option \<Rightarrow> bool" where
  "lacking x = (x = None \<or> x = Some [])"

definition spec_wellFormed :: "js_error + OlafManifest option \<Rightarrow> bool" where
  "spec_wellFormed fetched =
     (case fetched of
        Inl e \<Rightarrow> False
      | Inr None \<Rightarrow> False
      | Inr (Some m) \<Rightarrow>
          \<not> (lacking (manifest_id m) \<or> lacking (manifest_name m) \<or> lacking (manifest_version m)))"

definition spec_bundle ::
  "olaf_env \<Rightarrow> ('a, 'b) OlafAdapter_scheme \<Rightarrow> string \<Rightarrow> string \<Rightarrow> string \<Rightarrow> Bundle" where
  "spec_bundle env adapter owner repo dir =
     manifestBundle env adapter
       (case manifestAt env adapter owner repo dir of Inl e \<Rightarrow> None | Inr m \<Rightarrow> m)
       (manifestUrlOf env adapter owner repo dir)"

definition spec_warning ::
  "olaf_env \<Rightarrow> ('a, 'b) OlafAdapter_scheme \<Rightarrow> string \<Rightarrow> string \<Rightarrow> string \<Rightarrow> log_entry" where
  "spec_warning env adapter owner repo dir =
     (LogWarn,
      case manifestAt env adapter owner repo dir of
        Inl e \<Rightarrow> ''Failed parsing manifest for '' @ dir @ '':''
      | Inr m \<Rightarrow> ''Skipping invalid competency at '' @ dir)"

text \<open>
  A repository for the examples: four manifests under the base path, of which one is
  well formed, one is gone (404), one is not JSON and one has no version.
\<close>

definition exampleTree :: GitTreeResponse where
  "exampleTree = \<lparr>tree_sha = ''4b825dc642cb6eb9a060e54bf8d69288fbee4904'', tree =
     [\<lparr>node_path = ''README.md'', node_type = ''blob''\<rparr>,
      \<lparr>node_path = ''olaf-core/competencies/dev'', node_type = ''tree''\<rparr>,
      \<lparr>node_path = ''olaf-core/competencies/dev/review/competency-manifest.json'',
        node_type = ''blob''\<rparr>,
      \<lparr>node_path = ''olaf-core/competencies/dev/gone/competency-manifest.json'',
        node_type = ''blob''\<rparr>,
      \<lparr>node_path = ''olaf-core/competencies/dev/broken/competency-manifest.json'',
        node_type = ''blob''\<rparr>,
      \<lparr>node_path = ''olaf-core/competencies/pm/plan/competency-manifest.json'',
        node_type = ''blob''\<rparr>]\<rparr>"

definition reviewManifest :: OlafManifest where
  "reviewManifest = \<lparr>manifest_id = Some ''review'', manifest_name = Some ''Code review'',
     manifest_version = Some ''1.2.0'', manifest_description = None, manifest_author = None,
     manifest_tags = None\<rparr>"

definition planManifest :: OlafManifest where
  "planManifest = \<lparr>manifest_id = Some ''plan'', manifest_name = Some ''Planning'',
     manifest_version = None, manifest_description = None, manifest_author = None,
     manifest_tags = None\<rparr>"

definition exampleGet :: "string \<Rightarrow> headers \<Rightarrow> http_reply" where
  "exampleGet url hs =
     (if url = ''https://api.github.com/repos/owner/repo/git/trees/main?recursive=1''
        then HttpResponse (Some 200) ''TREE''
      else if url = ''https://raw.githubusercontent.com/owner/repo/main/olaf-core/competencies/dev/review/competency-manifest.json''
        then HttpResponse (Some 200) ''REVIEW''
      else if url = ''https://raw.githubusercontent.com/owner/repo/main/olaf-core/competencies/dev/broken/competency-manifest.json''
        then HttpResponse (Some 200) ''{not json''
      else if url = ''https://raw.githubusercontent.com/owner/repo/main/olaf-core/competencies/pm/plan/competency-manifest.json''
        then HttpResponse (Some 200) ''PLAN''
      else HttpResponse (Some 404) ''Not Found'')"

definition exampleRepo :: olaf_env where
  "exampleRepo =
     \<lparr>urlParser = exampleUrls,
      encodeURIComponent = (\<lambda>s. s),
      httpsGet = exampleGet,
      parseTreeJson = (\<lambda>body. if body = ''TREE'' then Some exampleTree else None),
      parseRefJson = (\<lambda>body. None),
      parseManifestJson = (\<lambda>body. if body = ''REVIEW'' then Some (Some reviewManifest)
                                    else if body = ''PLAN'' then Some (Some planManifest)
                                    else None),
      dateNow = 1767225600000,
      dateIso = ''2026-01-01T00:00:00.000Z''\<rparr>"

definition exampleAdapter :: "unit OlafAdapter" where
  "exampleAdapter =
     \<lparr>adapterSource = \<lparr>src_id = ''olaf-source'', src_name = ''OLAF'',
        src_type = ''olaf-competencies'', src_url = ''https://github.com/owner/repo'',
        src_config = None\<rparr>,
      adapterPrivate = False,
      adapterToken = None,
      adapterConfig = olafConfigOf None None None,
      adapterCache = None\<rparr>"

section \<open>Source identifiers: properties\<close>

lemma sha256_hex_abc: "sha256_hex ''abc'' =
  ''ba7816bf8f01cfea414140de5dae2223b00361a396177a9cb410ff61f20015ad''"
  by code_simp

lemma length_hex32: "length (hex32 w) = 8"
  by (simp add: hex32_def)

lemma length_sha256_hex: "length (sha256_hex s) = 64"
proof -
  obtain a b c d e f g h where "sha256 (map of_char s) = (a, b, c, d, e, f, g, h)"
    by (metis surj_pair)
  then show ?thesis
    by (simp add: sha256_hex_def length_hex32)
qed

lemma hexdigit_hex: "0 \<le> n \<Longrightarrow> n < 16 \<Longrightarrow> hexdigit n \<in> set hexChars"
proof -
  assume "0 \<le> n" "n < 16"
  then have "nat n < length hexChars" by (simp add: hexChars_def)
  then show ?thesis unfolding hexdigit_def by (rule nth_mem)
qed

lemma hex32_hex: "set (hex32 w) \<subseteq> set hexChars"
proof -
  have h: "hexdigit ((w div p) mod 16) \<in> set hexChars" for p
    by (rule hexdigit_hex) simp_all
  show ?thesis unfolding hex32_def set_map by (rule image_subsetI) (rule h)
qed

lemma sha256_hex_hex: "set (sha256_hex s) \<subseteq> set hexChars"
proof
  fix c assume "c \<in> set (sha256_hex s)"
  then obtain w where "c \<in> set (hex32 w)"
    by (auto simp: sha256_hex_def)
  with hex32_hex show "c \<in> set hexChars" by blast
qed

lemma upper_table: "map char_of [65 ..< 91 :: nat] = ''ABCDEFGHIJKLMNOPQRSTUVWXYZ''"
  by code_simp

lemma lower_table: "map (\<lambda>n. char_of (n + 32)) [65 ..< 91 :: nat] = ''abcdefghijklmnopqrstuvwxyz''"
  by code_simp

lemma toLowerChar_spec: "toLowerChar c = spec_lowerChar c"
proof (cases "65 \<le> (of_char c :: nat) \<and> (of_char c :: nat) \<le> 90")
  case True
  define n where "n = (of_char c :: nat)"
  have c: "c = char_of n" by (simp add: n_def)
  from True have b: "65 \<le> n" "n \<le> 90" by (simp_all add: n_def)
  then have i: "n - 65 < 26" "n = 65 + (n - 65)" by arith+
  have d: "distinct (map char_of [65 ..< 91 :: nat])"
    unfolding upper_table by simp
  have k: "n - 65 < length [65 ..< 91 :: nat]"
    unfolding length_upt using i(1) by arith
  have "65 + (n - 65) < 91" using b by arith
  from nth_upt [OF this] i(2) have e: "[65 ..< 91 :: nat] ! (n - 65) = n"
    by (simp only:)
  have ci: "c = map char_of [65 ..< 91 :: nat] ! (n - 65)"
    by (simp only: nth_map [OF k] e c)
  have kk: "n - 65 < length (map (\<lambda>n. char_of (n + 32)) [65 ..< 91 :: nat])"
    "length (map char_of [65 ..< 91 :: nat])
       = length (map (\<lambda>n. char_of (n + 32)) [65 ..< 91 :: nat])"
    using k by (simp_all only: length_map)
  have "map_of (zip (map char_of [65 ..< 91 :: nat])
                    (map (\<lambda>n. char_of (n + 32)) [65 ..< 91 :: nat])) c
          = Some (map (\<lambda>n. char_of (n + 32)) [65 ..< 91 :: nat] ! (n - 65))"
    unfolding ci by (rule map_of_zip_nth [OF kk(2) d kk(1)])
  also have "map (\<lambda>n. char_of (n + 32)) [65 ..< 91 :: nat] ! (n - 65) = char_of (n + 32)"
    by (simp only: nth_map [OF k] e)
  finally have "map_of (zip ''ABCDEFGHIJKLMNOPQRSTUVWXYZ'' ''abcdefghijklmnopqrstuvwxyz'') c
      = Some (char_of (n + 32))"
    unfolding upper_table lower_table .
  then show ?thesis
    using True unfolding toLowerChar_def spec_lowerChar_def n_def
    by (simp only: option.case simp_thms if_True)
next
  case False
  have "c \<notin> set (map char_of [65 ..< 91 :: nat])"
  proof
    assume "c \<in> set (map char_of [65 ..< 91 :: nat])"
    then obtain n :: nat where m: "n \<in> set [65 ..< 91]" and cn: "c = char_of n"
      unfolding set_map by blast
    from m have n: "65 \<le> n" "n < 91"
      unfolding set_upt atLeastLessThan_iff by blast+
    then have "(of_char c :: nat) = n" by (simp add: cn)
    with n False show False by simp
  qed
  then have "c \<notin> set ''ABCDEFGHIJKLMNOPQRSTUVWXYZ''"
    unfolding upper_table .
  then have "map_of (zip ''ABCDEFGHIJKLMNOPQRSTUVWXYZ'' ''abcdefghijklmnopqrstuvwxyz'') c = None"
    using map_of_zip_is_None
      [of "''ABCDEFGHIJKLMNOPQRSTUVWXYZ''" "''abcdefghijklmnopqrstuvwxyz''" c]
    by simp
  then have "toLowerChar c = c"
    unfolding toLowerChar_def by (simp only: option.case)
  moreover have "spec_lowerChar c = c"
    unfolding spec_lowerChar_def using False by (rule if_not_P)
  ultimately show ?thesis by (simp only:)
qed


lemma toLowerCase_spec: "toLowerCase s = spec_lower s"
  by (simp add: toLowerCase_def spec_lower_def toLowerChar_spec)

lemma stripTrailingSlashes_spec: "stripTrailingSlashes s = spec_withoutTrailingSlashes s"
  by (simp add: stripTrailingSlashes_def spec_withoutTrailingSlashes_def dropWhile_eq_drop
      rev_drop)

lemma stripHttpPrefix_spec: "stripHttpPrefix s = spec_withoutProtocol s"
  by (simp only: stripHttpPrefix_def spec_withoutProtocol_def)


lemma spec_withoutTrailingSlashes_props:
  "s = spec_withoutTrailingSlashes s
         @ replicate (length (takeWhile (\<lambda>c. c = CHR ''/'') (rev s))) CHR ''/''
   \<and> (spec_withoutTrailingSlashes s = [] \<or> last (spec_withoutTrailingSlashes s) \<noteq> CHR ''/'')"
proof -
  define t where "t = takeWhile (\<lambda>c. c = CHR ''/'') (rev s)"
  define d where "d = dropWhile (\<lambda>c. c = CHR ''/'') (rev s)"
  have r: "rev s = t @ d" by (simp add: t_def d_def)
  have "\<forall>x \<in> set t. x = CHR ''/''"
    unfolding t_def using set_takeWhileD by fastforce
  then have t: "t = replicate (length t) CHR ''/''"
    by (simp add: replicate_length_same)
  have w: "spec_withoutTrailingSlashes s = rev d"
    using stripTrailingSlashes_spec [of s] by (simp add: stripTrailingSlashes_def d_def)
  have "rev (rev s) = rev d @ rev t" unfolding r by (rule rev_append)
  then have "s = rev d @ rev t" by simp
  moreover have "rev t = replicate (length t) CHR ''/''"
    by (subst t) (simp only: rev_replicate length_replicate)
  ultimately have "s = rev d @ replicate (length t) CHR ''/''" by (simp only:)
  then have a: "s = spec_withoutTrailingSlashes s @ replicate (length t) CHR ''/''"
    unfolding w .
  have "d = [] \<or> hd d \<noteq> CHR ''/''"
    unfolding d_def using hd_dropWhile [of "\<lambda>c. c = CHR ''/''" "rev s"] by blast
  then have b: "rev d = [] \<or> last (rev d) \<noteq> CHR ''/''"
    by (auto simp: last_rev)
  show ?thesis using a b unfolding w t_def by blast
qed

lemma normalizeUrl_spec: "normalizeUrl parse u = spec_normalizedUrl parse u"
  by (simp add: normalizeUrl_def spec_normalizedUrl_def toLowerCase_spec
      stripTrailingSlashes_spec stripHttpPrefix_spec split: option.splits)


lemma effectiveBranch_code: "normalizeBranch (configBranch config) = effectiveBranch config"
  by (simp add: normalizeBranch_def configBranch_def effectiveBranch_def split: option.splits)

lemma effectiveCollectionsPath_code:
  "orCollections (configCollectionsPath config) = effectiveCollectionsPath config"
  by (simp add: orCollections_def configCollectionsPath_def effectiveCollectionsPath_def
      split: option.splits)

lemma effective_is_spec:
  "\<not> hasEmptyField config \<Longrightarrow>
     effectiveBranch config = spec_branch config
     \<and> effectiveCollectionsPath config = spec_collectionsPath config"
  by (auto simp: hasEmptyField_def effectiveBranch_def spec_branch_def
      effectiveCollectionsPath_def spec_collectionsPath_def split: option.splits)

lemma generateHubSourceId_unfold:
  "generateHubSourceId parse t u config =
     t @ ''-'' @ take 12 (sha256_hex
       (t @ '':'' @ normalizeUrl parse u @ '':'' @ normalizeBranch (configBranch config)
          @ '':'' @ orCollections (configCollectionsPath config)))"
  by (simp add: generateHubSourceId_def Let_def)

lemma generateHubSourceId_effective:
  "generateHubSourceId parse t u config =
     t @ ''-'' @ take 12 (sha256_hex
       (t @ '':'' @ spec_normalizedUrl parse u @ '':'' @ effectiveBranch config
          @ '':'' @ effectiveCollectionsPath config))"
  by (simp only: generateHubSourceId_unfold normalizeUrl_spec effectiveBranch_code
      effectiveCollectionsPath_code)

text \<open>
  C1, as stated: the identifier is the type, a dash and the first 12 hex characters of
  the SHA-256 digest of \<open>t:N:b:p\<close>, with \<open>N\<close> the normalized URL, \<open>b\<close> the branch
  unless it is absent or \<open>master\<close> and \<open>p\<close> the collections path whenever present.
  This fails for a configuration whose branch is the empty string: the code hashes
  \<open>main\<close> there.
\<close>

theorem generateHubSourceId_empty_branch_counterexample:
  "generateHubSourceId exampleUrls ''github'' ''https://github.com/owner/repo''
     (Some \<lparr>branch = Some [], collectionsPath = None\<rparr>)
   \<noteq> spec_hubSourceId exampleUrls ''github'' ''https://github.com/owner/repo''
     (Some \<lparr>branch = Some [], collectionsPath = None\<rparr>)"
proof -
  have code: "generateHubSourceId exampleUrls ''github'' ''https://github.com/owner/repo''
      (Some \<lparr>branch = Some [], collectionsPath = None\<rparr>) = ''github-2bbe3751c8d5''"
    by code_simp
  have spec: "spec_hubSourceId exampleUrls ''github'' ''https://github.com/owner/repo''
      (Some \<lparr>branch = Some [], collectionsPath = None\<rparr>) = ''github-aebd630692c4''"
    by code_simp
  show ?thesis unfolding code spec by simp
qed

text \<open>
  C1, amended: for every source type, URL and optional configuration the identifier is
  the type, a dash and the first 12 hex characters of the SHA-256 digest of \<open>t:N:b:p\<close>,
  where \<open>N\<close> is the normalized URL (lowercased host and path, protocol and trailing
  slashes removed), \<open>b\<close> is \<open>main\<close> when the branch is absent, empty or \<open>master\<close>
  and otherwise the branch, and \<open>p\<close> is \<open>collections\<close> when the collections path is
  absent or empty and otherwise the collections path. The hash part has exactly 12
  characters, all of them hex digits, and the identifier is the one of the
  specification's formula whenever neither field is the empty string.
\<close>

theorem generateHubSourceId_amended:
  "generateHubSourceId parse t u config =
     t @ ''-'' @ take 12 (sha256_hex
       (t @ '':'' @ spec_normalizedUrl parse u @ '':'' @ effectiveBranch config
          @ '':'' @ effectiveCollectionsPath config))
   \<and> length (generateHubSourceId parse t u config) = length t + 13
   \<and> set (drop (length t + 1) (generateHubSourceId parse t u config)) \<subseteq> set hexChars
   \<and> (\<not> hasEmptyField config \<longrightarrow>
        generateHubSourceId parse t u config = spec_hubSourceId parse t u config)"
proof (intro conjI impI)
  show "generateHubSourceId parse t u config =
     t @ ''-'' @ take 12 (sha256_hex
       (t @ '':'' @ spec_normalizedUrl parse u @ '':'' @ effectiveBranch config
          @ '':'' @ effectiveCollectionsPath config))"
    by (rule generateHubSourceId_effective)
  show "length (generateHubSourceId parse t u config) = length t + 13"
    by (simp add: generateHubSourceId_unfold length_sha256_hex)
  have "drop (length t + 1) (generateHubSourceId parse t u config) =
      take 12 (sha256_hex (t @ '':'' @ normalizeUrl parse u @ '':''
        @ normalizeBranch (configBranch config) @ '':'' @ orCollections (configCollectionsPath config)))"
    by (simp add: generateHubSourceId_unfold)
  then show "set (drop (length t + 1) (generateHubSourceId parse t u config)) \<subseteq> set hexChars"
    using sha256_hex_hex set_take_subset by (metis order_trans)
next
  assume "\<not> hasEmptyField config"
  then show "generateHubSourceId parse t u config = spec_hubSourceId parse t u config"
    by (simp add: generateHubSourceId_effective spec_hubSourceId_def effective_is_spec)
qed

theorem generateHubSourceId_amended_witness:
  "\<not> hasEmptyField (Some \<lparr>branch = Some ''develop'', collectionsPath = Some ''prompts''\<rparr>)
   \<and> generateHubSourceId exampleUrls ''github'' ''https://GitHub.com/Owner/Repo/''
        (Some \<lparr>branch = Some ''develop'', collectionsPath = Some ''prompts''\<rparr>)
     = spec_hubSourceId exampleUrls ''github'' ''https://GitHub.com/Owner/Repo/''
        (Some \<lparr>branch = Some ''develop'', collectionsPath = Some ''prompts''\<rparr>)
   \<and> spec_normalizedUrl exampleUrls ''https://GitHub.com/Owner/Repo/'' = ''github.com/owner/repo''
   \<and> generateHubSourceId exampleUrls ''github'' ''https://GitHub.com/Owner/Repo/''
        (Some \<lparr>branch = Some ''develop'', collectionsPath = Some ''prompts''\<rparr>)
     = ''github-06066410e216''"
proof -
  have ne: "\<not> hasEmptyField (Some \<lparr>branch = Some ''develop'', collectionsPath = Some ''prompts''\<rparr>)"
    by (simp add: hasEmptyField_def)
  note inst = generateHubSourceId_amended
    [of exampleUrls "''github''" "''https://GitHub.com/Owner/Repo/''"
      "Some \<lparr>branch = Some ''develop'', collectionsPath = Some ''prompts''\<rparr>"]
  have n: "spec_normalizedUrl exampleUrls ''https://GitHub.com/Owner/Repo/''
      = ''github.com/owner/repo''"
    by code_simp
  have h: "''github'' @ ''-'' @ take 12 (sha256_hex
       (''github'' @ '':'' @ ''github.com/owner/repo'' @ '':''
          @ effectiveBranch (Some \<lparr>branch = Some ''develop'', collectionsPath = Some ''prompts''\<rparr>)
          @ '':''
          @ effectiveCollectionsPath
              (Some \<lparr>branch = Some ''develop'', collectionsPath = Some ''prompts''\<rparr>)))
      = ''github-06066410e216''"
    by code_simp
  from inst have v: "generateHubSourceId exampleUrls ''github'' ''https://GitHub.com/Owner/Repo/''
        (Some \<lparr>branch = Some ''develop'', collectionsPath = Some ''prompts''\<rparr>)
     = ''github-06066410e216''"
    unfolding n h by blast
  from inst ne have "generateHubSourceId exampleUrls ''github'' ''https://GitHub.com/Owner/Repo/''
        (Some \<lparr>branch = Some ''develop'', collectionsPath = Some ''prompts''\<rparr>)
     = spec_hubSourceId exampleUrls ''github'' ''https://GitHub.com/Owner/Repo/''
        (Some \<lparr>branch = Some ''develop'', collectionsPath = Some ''prompts''\<rparr>)"
    by blast
  with ne n v show ?thesis by blast
qed

text \<open>
  C6: the identifier is the same with no configuration, with branch \<open>main\<close> and with
  branch \<open>master\<close>; and the collections path \<open>collections\<close> gives the identifier of an
  absent collections path, whatever the branch.
\<close>

theorem generateHubSourceId_normalization_invariant:
  "generateHubSourceId parse t u (Some \<lparr>branch = Some ''main'', collectionsPath = None\<rparr>)
     = generateHubSourceId parse t u None
   \<and> generateHubSourceId parse t u (Some \<lparr>branch = Some ''master'', collectionsPath = None\<rparr>)
     = generateHubSourceId parse t u None
   \<and> generateHubSourceId parse t u (Some \<lparr>branch = None, collectionsPath = None\<rparr>)
     = generateHubSourceId parse t u None
   \<and> generateHubSourceId parse t u (Some \<lparr>branch = None, collectionsPath = Some ''collections''\<rparr>)
     = generateHubSourceId parse t u None
   \<and> generateHubSourceId parse t u (Some \<lparr>branch = b, collectionsPath = Some ''collections''\<rparr>)
     = generateHubSourceId parse t u (Some \<lparr>branch = b, collectionsPath = None\<rparr>)"
  by (simp add: generateHubSourceId_unfold normalizeBranch_def configBranch_def
      configCollectionsPath_def orCollections_def)










section \<open>The migration registry: properties\<close>

lemma migrations_logger [simp]: "migrations (logger l m h) = migrations h"
  by (simp add: logger_def)

lemma clock_logger [simp]: "clock (logger l m h) = clock h"
  by (simp add: logger_def)

lemma alreadyRun_logger [simp]: "alreadyRun (logger l m h) name = alreadyRun h name"
  by (simp add: alreadyRun_def)

lemma runMigration_skip:
  "alreadyRun h name \<Longrightarrow>
     \<exists>msg. runMigration name fn h = (Inr (), logger LogDebug msg h)"
  by (auto simp: runMigration_def alreadyRun_def getMigrationState_def Let_def
      split: option.splits)

lemma runMigration_skip_any:
  "alreadyRun h name \<Longrightarrow> runMigration name fn h = runMigration name fn' h"
  by (auto simp: runMigration_def alreadyRun_def getMigrationState_def Let_def
      split: option.splits)

lemma runMigration_run:
  "\<not> alreadyRun h name \<Longrightarrow>
     runMigration name fn h =
       (case fn (atCall name h) of
          (Inl error, h1) \<Rightarrow>
            (Inl error, logger LogError (''Migration '' @ quoted name @ '' failed'') h1)
        | (Inr ok, h1) \<Rightarrow>
            (Inr (), logger LogInfo (''Migration '' @ quoted name @ '' marked as completed'')
               (h1\<lparr>migrations := (migrations h1)(name \<mapsto>
                  \<lparr>status = Completed, completedAt = Some (clock h1), details = None\<rparr>)\<rparr>)))"
  by (auto simp: runMigration_def alreadyRun_def getMigrationState_def Let_def atCall_def
      markMigrationComplete_def split: option.splits sum.splits prod.splits)

text \<open>
  C2: when the persisted record of the migration is \<open>completed\<close> or \<open>skipped\<close>,
  the function is not invoked (the run is the same for every function) and the
  persisted migration state is unchanged. Otherwise the function runs and the run ends
  as the function does: when it resolves, the migration is recorded as completed on
  top of the state the function left; when it throws, the error propagates and the
  registry writes nothing, so that, the function itself not having written the record,
  a subsequent run invokes its function again.
\<close>

theorem runMigration_idempotent_and_retried:
  "(alreadyRun h name \<longrightarrow>
      runMigration name fn h = runMigration name fn' h
      \<and> fst (runMigration name fn h) = Inr ()
      \<and> migrations (snd (runMigration name fn h)) = migrations h)
   \<and> (\<not> alreadyRun h name \<longrightarrow>
        fst (runMigration name fn h) = fst (fn (atCall name h)))
   \<and> (\<not> alreadyRun h name \<and> fn (atCall name h) = (Inr ok, h') \<longrightarrow>
        fst (runMigration name fn h) = Inr ()
        \<and> migrations (snd (runMigration name fn h)) = (migrations h')(name \<mapsto>
             \<lparr>status = Completed, completedAt = Some (clock h'), details = None\<rparr>))
   \<and> (\<not> alreadyRun h name \<and> fn (atCall name h) = (Inl err, h') \<longrightarrow>
        fst (runMigration name fn h) = Inl err
        \<and> migrations (snd (runMigration name fn h)) = migrations h'
        \<and> (\<not> alreadyRun h' name \<longrightarrow>
             fst (runMigration name retry (snd (runMigration name fn h)))
               = fst (retry (atCall name (snd (runMigration name fn h))))))"
proof (intro conjI impI)
  assume a: "alreadyRun h name"
  show "runMigration name fn h = runMigration name fn' h"
    using a by (rule runMigration_skip_any)
  from runMigration_skip [OF a, of fn] obtain msg
    where r: "runMigration name fn h = (Inr (), logger LogDebug msg h)" by blast
  show "fst (runMigration name fn h) = Inr ()" by (simp add: r)
  show "migrations (snd (runMigration name fn h)) = migrations h" by (simp add: r)
next
  assume "\<not> alreadyRun h name"
  then show "fst (runMigration name fn h) = fst (fn (atCall name h))"
    by (simp add: runMigration_run split: prod.splits sum.splits)
next
  assume "\<not> alreadyRun h name \<and> fn (atCall name h) = (Inr ok, h')"
  then have r: "runMigration name fn h =
      (Inr (), logger LogInfo (''Migration '' @ quoted name @ '' marked as completed'')
         (h'\<lparr>migrations := (migrations h')(name \<mapsto>
            \<lparr>status = Completed, completedAt = Some (clock h'), details = None\<rparr>)\<rparr>))"
    by (simp add: runMigration_run)
  show "fst (runMigration name fn h) = Inr ()" by (simp add: r)
  show "migrations (snd (runMigration name fn h)) = (migrations h')(name \<mapsto>
             \<lparr>status = Completed, completedAt = Some (clock h'), details = None\<rparr>)"
    by (simp add: r)
next
  assume "\<not> alreadyRun h name \<and> fn (atCall name h) = (Inl err, h')"
  then have r: "runMigration name fn h =
      (Inl err, logger LogError (''Migration '' @ quoted name @ '' failed'') h')"
    by (simp add: runMigration_run)
  show "fst (runMigration name fn h) = Inl err" by (simp add: r)
  show "migrations (snd (runMigration name fn h)) = migrations h'" by (simp add: r)
  assume "\<not> alreadyRun h' name"
  then have "\<not> alreadyRun (snd (runMigration name fn h)) name" by (simp add: r)
  then show "fst (runMigration name retry (snd (runMigration name fn h)))
               = fst (retry (atCall name (snd (runMigration name fn h))))"
    by (simp add: runMigration_run split: prod.splits sum.splits)
qed

theorem runMigration_idempotent_and_retried_witness:
  "alreadyRun migratedHost ''m1''
   \<and> fst (runMigration ''m1'' failingMigration migratedHost) = Inr ()
   \<and> migrations (snd (runMigration ''m1'' failingMigration migratedHost)) = migrations migratedHost
   \<and> \<not> alreadyRun freshHost ''m1''
   \<and> succeedingMigration (atCall ''m1'' freshHost) = (Inr (), atCall ''m1'' freshHost)
   \<and> fst (runMigration ''m1'' succeedingMigration freshHost) = Inr ()
   \<and> migrations (snd (runMigration ''m1'' succeedingMigration freshHost)) ''m1''
       = Some \<lparr>status = Completed, completedAt = Some ''2026-01-01T00:00:00.000Z'', details = None\<rparr>
   \<and> failingMigration (atCall ''m1'' freshHost) = (Inl ''disk full'', atCall ''m1'' freshHost)
   \<and> \<not> alreadyRun (atCall ''m1'' freshHost) ''m1''
   \<and> fst (runMigration ''m1'' failingMigration freshHost) = Inl ''disk full''
   \<and> migrations (snd (runMigration ''m1'' failingMigration freshHost)) = Map.empty
   \<and> fst (runMigration ''m1'' succeedingMigration
             (snd (runMigration ''m1'' failingMigration freshHost))) = Inr ()"
proof -
  have ran: "alreadyRun migratedHost ''m1''"
    by (simp add: alreadyRun_def migratedHost_def)
  have fresh: "\<not> alreadyRun freshHost ''m1''"
    by (simp add: alreadyRun_def freshHost_def)
  have ok: "succeedingMigration (atCall ''m1'' freshHost) = (Inr (), atCall ''m1'' freshHost)"
    by (simp add: succeedingMigration_def)
  have ko: "failingMigration (atCall ''m1'' freshHost) = (Inl ''disk full'', atCall ''m1'' freshHost)"
    by (simp add: failingMigration_def)
  have fresh': "\<not> alreadyRun (atCall ''m1'' freshHost) ''m1''"
    using fresh by (simp add: atCall_def)
  have empty: "migrations (atCall ''m1'' freshHost) = Map.empty"
    by (simp add: atCall_def freshHost_def)
  have now: "clock (atCall ''m1'' freshHost) = ''2026-01-01T00:00:00.000Z''"
    by (simp add: atCall_def freshHost_def)
  note skip = runMigration_idempotent_and_retried
    [where h = migratedHost and name = "''m1''" and fn = failingMigration]
  note run_ok = runMigration_idempotent_and_retried
    [where h = freshHost and name = "''m1''" and fn = succeedingMigration
       and h' = "atCall ''m1'' freshHost" and ok = "()"]
  note run_ko = runMigration_idempotent_and_retried
    [where h = freshHost and name = "''m1''" and fn = failingMigration
       and h' = "atCall ''m1'' freshHost" and err = "''disk full''"
       and retry = succeedingMigration]
  have a: "fst (runMigration ''m1'' failingMigration migratedHost) = Inr ()"
    and b: "migrations (snd (runMigration ''m1'' failingMigration migratedHost))
             = migrations migratedHost"
    using skip ran by blast+
  have c: "fst (runMigration ''m1'' succeedingMigration freshHost) = Inr ()"
    using run_ok fresh ok by blast
  have "migrations (snd (runMigration ''m1'' succeedingMigration freshHost))
          = (migrations (atCall ''m1'' freshHost))(''m1'' \<mapsto>
             \<lparr>status = Completed, completedAt = Some (clock (atCall ''m1'' freshHost)),
                details = None\<rparr>)"
    using run_ok fresh ok by blast
  then have d: "migrations (snd (runMigration ''m1'' succeedingMigration freshHost)) ''m1''
       = Some \<lparr>status = Completed, completedAt = Some ''2026-01-01T00:00:00.000Z'', details = None\<rparr>"
    by (simp add: now)
  have e: "fst (runMigration ''m1'' failingMigration freshHost) = Inl ''disk full''"
    using run_ko fresh ko by blast
  have f: "migrations (snd (runMigration ''m1'' failingMigration freshHost)) = Map.empty"
    using run_ko fresh ko empty by metis
  have "fst (runMigration ''m1'' succeedingMigration
             (snd (runMigration ''m1'' failingMigration freshHost)))
        = fst (succeedingMigration (atCall ''m1'' (snd (runMigration ''m1'' failingMigration freshHost))))"
    using run_ko fresh ko fresh' by blast
  then have g: "fst (runMigration ''m1'' succeedingMigration
             (snd (runMigration ''m1'' failingMigration freshHost))) = Inr ()"
    by (simp add: succeedingMigration_def)
  show ?thesis
    using ran a b fresh ok c d ko fresh' e f g by blast
qed

section \<open>The migration: properties\<close>














section \<open>The URL validator: properties\<close>

lemma within_within: "a \<le> b \<Longrightarrow> within a (within b s) = within a s"
  by (auto simp: within_def split: option.splits)

lemma within_delayed:
  "d \<le> a \<Longrightarrow> within a (delayed d s) = delayed d (within (a - d) s)"
  by (auto simp: within_def delayed_def split: option.splits)

lemma within_delayed_early: "a < d \<Longrightarrow> within a (delayed d s) = None"
  by (auto simp: within_def delayed_def split: option.splits)

lemma within_settleFirst:
  "within a (settleFirst (within a c) e) = within a (settleFirst c e)"
  by (auto simp: within_def settleFirst_def split: option.splits)

text \<open>The deadline only hides what comes after it.\<close>

lemma makeRequest_horizon:
  "D \<le> D' \<Longrightarrow> makeRequest env D url timeout = within D (makeRequest env D' url timeout)"
proof (induction env D' url timeout arbitrary: D rule: makeRequest.induct)
  case (1 env deadline url timeout)
  show ?case
  proof (cases "parseUrl env url")
    case None
    then show ?thesis
      by (simp add: makeRequest.simps [of env D] makeRequest.simps [of env deadline] within_def)
  next
    case (Some p)
    show ?thesis
    proof (cases "request env (protocol p = ''https:'') url timeout")
      case (Response d sc loc after)
      show ?thesis
      proof (cases "deadline < Suc d")
        case True
        with "1.prems" Some Response show ?thesis
          by (simp add: makeRequest.simps [of env D] makeRequest.simps [of env deadline] within_def)
      next
        case late: False
        show ?thesis
        proof (cases "redirectLocation sc loc")
          case None
          with "1.prems" Some Response late show ?thesis
            by (simp add: makeRequest.simps [of env D] makeRequest.simps [of env deadline]
                within_def)
        next
          case l: (Some l)
          show ?thesis
          proof (cases "D < Suc d")
            case True
            with "1.prems" Some Response late l show ?thesis
              by (simp add: makeRequest.simps [of env D] makeRequest.simps [of env deadline]
                  within_delayed_early)
          next
            case False
            have chain: "(case resolveUrl env l url of None \<Rightarrow> None
                  | Some u \<Rightarrow> makeRequest env (D - Suc d) u timeout)
                = within (D - Suc d) (case resolveUrl env l url of None \<Rightarrow> None
                  | Some u \<Rightarrow> makeRequest env (deadline - Suc d) u timeout)"
            proof (cases "resolveUrl env l url")
              case None
              then show ?thesis by (simp add: within_def)
            next
              case u: (Some u)
              have "makeRequest env (D - Suc d) u timeout
                  = within (D - Suc d) (makeRequest env (deadline - Suc d) u timeout)"
                using "1.IH" [OF Some Response late l u, of "D - Suc d"] "1.prems"
                by simp
              with u show ?thesis by simp
            qed
            have "makeRequest env D url timeout
                = delayed (Suc d) (within (D - Suc d)
                    (settleFirst (case resolveUrl env l url of None \<Rightarrow> None
                        | Some u \<Rightarrow> makeRequest env (D - Suc d) u timeout)
                      (followUp timeout after)))"
              using Some Response l False by (simp add: makeRequest.simps [of env D])
            also have "\<dots> = delayed (Suc d) (within (D - Suc d)
                    (settleFirst (case resolveUrl env l url of None \<Rightarrow> None
                        | Some u \<Rightarrow> makeRequest env (deadline - Suc d) u timeout)
                      (followUp timeout after)))"
              unfolding chain within_settleFirst ..
            also have "\<dots> = delayed (Suc d) (within (D - Suc d) (within (deadline - Suc d)
                    (settleFirst (case resolveUrl env l url of None \<Rightarrow> None
                        | Some u \<Rightarrow> makeRequest env (deadline - Suc d) u timeout)
                      (followUp timeout after))))"
              using "1.prems" by (simp add: within_within)
            also have "\<dots> = within D (delayed (Suc d) (within (deadline - Suc d)
                    (settleFirst (case resolveUrl env l url of None \<Rightarrow> None
                        | Some u \<Rightarrow> makeRequest env (deadline - Suc d) u timeout)
                      (followUp timeout after))))"
              using False by (simp add: within_delayed)
            also have "\<dots> = within D (makeRequest env deadline url timeout)"
              using Some Response l late by (simp add: makeRequest.simps [of env deadline])
            finally show ?thesis .
          qed
        qed
      qed
    next
      case (RequestError d e)
      with "1.prems" Some show ?thesis
        by (simp add: makeRequest.simps [of env D] makeRequest.simps [of env deadline]
            within_within)
    next
      case (RequestTimeout d)
      with "1.prems" Some show ?thesis
        by (simp add: makeRequest.simps [of env D] makeRequest.simps [of env deadline]
            within_within)
    next
      case NoAnswer
      with Some show ?thesis
        by (simp add: makeRequest.simps [of env D] makeRequest.simps [of env deadline]
            within_def)
    qed
  qed
qed




lemma quiet_redirects_never_settle:
  assumes closed: "list_all (quietRedirectInto env timeout S) S"
  shows "url \<in> set S \<Longrightarrow> makeRequest env D url timeout = None"
proof (induction D arbitrary: url rule: less_induct)
  case (less D)
  from closed less.prems have q: "quietRedirectInto env timeout S url"
    by (simp add: list_all_iff)
  then obtain p where p: "parseUrl env url = Some p"
    by (auto simp: quietRedirectInto_def split: option.splits)
  with q obtain d sc loc
    where reply: "request env (protocol p = ''https:'') url timeout = Response d sc loc NoMoreEvents"
    by (auto simp: quietRedirectInto_def split: reply.splits)
  with q p obtain l where l: "redirectLocation sc loc = Some l"
    by (auto simp: quietRedirectInto_def split: option.splits)
  show ?case
  proof (cases "D < Suc d")
    case True
    with p reply show ?thesis by (simp add: makeRequest.simps [of env D])
  next
    case False
    show ?thesis
    proof (cases "resolveUrl env l url")
      case None
      with p reply l False show ?thesis
        by (simp add: makeRequest.simps [of env D] settleFirst_def followUp_def within_def
            delayed_def)
    next
      case (Some u)
      with q p reply l have "u \<in> set S"
        by (simp add: quietRedirectInto_def)
      moreover from False have "D - Suc d < D" by simp
      ultimately have "makeRequest env (D - Suc d) u timeout = None"
        by (rule less.IH [rotated])
      with p reply l False Some show ?thesis
        by (simp add: makeRequest.simps [of env D] settleFirst_def followUp_def within_def
            delayed_def)
    qed
  qed
qed


lemma event_before_chain:
  assumes p: "parseUrl env url = Some p"
    and reply: "request env (protocol p = ''https:'') url timeout = Response d sc loc after"
    and l: "redirectLocation sc loc = Some l"
    and ev: "followUp timeout after = Some (k, e)"
    and pending: "case resolveUrl env l url of None \<Rightarrow> True
                  | Some u \<Rightarrow> makeRequest env k u timeout = None"
    and D: "Suc d + k \<le> D"
  shows "makeRequest env D url timeout = Some (Suc d + k, e)"
proof -
  define chain where "chain = (case resolveUrl env l url of None \<Rightarrow> None
      | Some u \<Rightarrow> makeRequest env (D - Suc d) u timeout)"
  from D have ge: "\<not> D < Suc d" and k: "k \<le> D - Suc d" by simp_all
  have m: "makeRequest env D url timeout
      = delayed (Suc d) (within (D - Suc d) (settleFirst chain (Some (k, e))))"
    using p reply l ev ge by (simp add: makeRequest.simps [of env D] chain_def)
  have "settleFirst chain (Some (k, e)) = Some (k, e)"
  proof (cases "resolveUrl env l url")
    case None
    then show ?thesis by (simp add: chain_def settleFirst_def)
  next
    case (Some u)
    with pending have "makeRequest env k u timeout = None" by simp
    with makeRequest_horizon [OF k, of env u timeout]
    have "within k (makeRequest env (D - Suc d) u timeout) = None" by simp
    with Some show ?thesis
      by (auto simp: chain_def settleFirst_def within_def split: option.splits if_splits)
  qed
  with m k show ?thesis by (simp add: within_def delayed_def)
qed



lemma checkUrl_http:
  "parseUrl env url = Some p \<Longrightarrow> httpScheme p \<Longrightarrow>
     checkUrl env D url t =
       (case makeRequest env D url (timeoutOf t) of
          None \<Rightarrow> None
        | Some (s, Inr statusCode) \<Rightarrow>
            if 200 \<le> statusCode \<and> statusCode < 300
            then Some \<lparr>res_url = url, res_accessible = True,
                   res_statusCode = Some statusCode, res_error = None,
                   res_severity = SevSuccess, res_message = ''Accessible''\<rparr>
            else if statusCode = 401 \<or> statusCode = 403
            then Some \<lparr>res_url = url, res_accessible = False,
                   res_statusCode = Some statusCode, res_error = None,
                   res_severity = SevWarning,
                   res_message = ''Private/Access Denied - Expected for private repositories''\<rparr>
            else if statusCode = 404
            then Some \<lparr>res_url = url, res_accessible = False,
                   res_statusCode = Some statusCode, res_error = Some ''Not Found'',
                   res_severity = SevError, res_message = ''Not Found - URL is broken''\<rparr>
            else Some \<lparr>res_url = url, res_accessible = False,
                   res_statusCode = Some statusCode,
                   res_error = Some (''HTTP '' @ showNat statusCode),
                   res_severity = SevError,
                   res_message = ''HTTP Error '' @ showNat statusCode\<rparr>
        | Some (s, Inl error) \<Rightarrow>
            Some \<lparr>res_url = url, res_accessible = False, res_statusCode = None,
                  res_error = Some (err_message error), res_severity = SevError,
                  res_message = categorizeError error\<rparr>)"
  by (auto simp: checkUrl_def httpScheme_def timeoutOf_def Let_def)


lemma checkUrl_settled:
  assumes "parseUrl env url = Some p" and "httpScheme p"
    and "makeRequest env D url (timeoutOf t) = Some (s, outcome)"
  shows "map_option res_severity (checkUrl env D url t) = Some (spec_severity outcome)
     \<and> map_option res_url (checkUrl env D url t) = Some url
     \<and> map_option res_statusCode (checkUrl env D url t)
         = Some (case outcome of Inl e \<Rightarrow> None | Inr sc \<Rightarrow> Some sc)"
  using assms(3)
  by (cases outcome) (simp_all add: checkUrl_http [OF assms(1,2)] spec_severity_def)

lemma checkUrl_pending:
  assumes "parseUrl env url = Some p" and "httpScheme p"
  shows "checkUrl env D url t = None \<longleftrightarrow> makeRequest env D url (timeoutOf t) = None"
  by (auto simp: checkUrl_http [OF assms] split: option.splits sum.splits)



lemma site_sel:
  "parseUrl (site k) = siteUrls"
  "resolveUrl (site k) = siteResolve"
  "request (site k) = siteRequest k"
  by (simp_all add: site_def)

lemmas site_defs = site_sel siteUrls_def siteRequest_def siteResolve_def idle_def
  redirectLocation_def

lemma site_parse:
  "parseUrl (site k) ''https://example.com/ok''
     = Some \<lparr>protocol = ''https:'', hostname = ''example.com'', pathname = ''/ok''\<rparr>"
  "parseUrl (site k) ''https://example.com/moved''
     = Some \<lparr>protocol = ''https:'', hostname = ''example.com'', pathname = ''/moved''\<rparr>"
  "parseUrl (site k) ''https://example.com/missing''
     = Some \<lparr>protocol = ''https:'', hostname = ''example.com'', pathname = ''/missing''\<rparr>"
  "parseUrl (site k) ''https://example.com/a''
     = Some \<lparr>protocol = ''https:'', hostname = ''example.com'', pathname = ''/a''\<rparr>"
  "parseUrl (site k) ''https://example.com/self''
     = Some \<lparr>protocol = ''https:'', hostname = ''example.com'', pathname = ''/self''\<rparr>"
  "parseUrl (site k) ''not a url'' = None"
  "parseUrl (site k) ''https://example.com/slow1''
     = Some \<lparr>protocol = ''https:'', hostname = ''example.com'', pathname = ''/slow1''\<rparr>"
  "parseUrl (site k) ''https://silent.example/''
     = Some \<lparr>protocol = ''https:'', hostname = ''silent.example'', pathname = ''/''\<rparr>"
  "parseUrl (site k) ''ftp://example.com/file''
     = Some \<lparr>protocol = ''ftp:'', hostname = ''example.com'', pathname = ''/file''\<rparr>"
  by (simp_all add: site_sel siteUrls_def)

lemma site_https: "httpScheme \<lparr>protocol = ''https:'', hostname = h, pathname = q\<rparr>"
  by (simp add: httpScheme_def)

lemma site_ok:
  "makeRequest (site k) D ''https://example.com/ok'' timeout
     = (if D < 100 then None else Some (100, Inr 200))"
  by (simp add: makeRequest.simps [of "site k" D] site_defs)

lemma site_missing:
  "makeRequest (site k) D ''https://example.com/missing'' timeout
     = (if D < 100 then None else Some (100, Inr 404))"
  by (simp add: makeRequest.simps [of "site k" D] site_defs)

lemma site_check_ok:
  "100 \<le> D \<Longrightarrow> checkUrl (site k) D ''https://example.com/ok'' t
     = Some \<lparr>res_url = ''https://example.com/ok'', res_accessible = True,
             res_statusCode = Some 200, res_error = None,
             res_severity = SevSuccess, res_message = ''Accessible''\<rparr>"
  by (simp add: checkUrl_http [OF site_parse(1) site_https] site_ok)

lemma site_check_missing:
  "100 \<le> D \<Longrightarrow> checkUrl (site k) D ''https://example.com/missing'' t
     = Some \<lparr>res_url = ''https://example.com/missing'', res_accessible = False,
             res_statusCode = Some 404, res_error = Some ''Not Found'',
             res_severity = SevError, res_message = ''Not Found - URL is broken''\<rparr>"
  by (simp add: checkUrl_http [OF site_parse(3) site_https] site_missing)

lemma site_cycle_quiet:
  "list_all (quietRedirectInto (site False) timeout
       [''https://example.com/a'', ''https://example.com/b''])
     [''https://example.com/a'', ''https://example.com/b'']"
  by (simp add: quietRedirectInto_def site_defs)


lemma site_check_cycle: "checkUrl (site False) D ''https://example.com/a'' t = None"
  using quiet_redirects_never_settle [OF site_cycle_quiet, of "''https://example.com/a''"]
  by (simp add: checkUrl_pending [OF site_parse(4) site_https])










lemma site_cycle_pending:
  "timeout \<noteq> 0 \<Longrightarrow> D < 100 + timeout \<Longrightarrow>
     makeRequest (site True) D ''https://example.com/a'' timeout = None
     \<and> makeRequest (site True) D ''https://example.com/b'' timeout = None"
proof (induction D rule: less_induct)
  case (less D)
  show ?case
  proof (cases "D < 100")
    case True
    then show ?thesis
      by (simp add: makeRequest.simps [of "site True" D] site_defs)
  next
    case False
    with less.prems have "D - 100 < D" and "D - 100 < 100 + timeout" by simp_all
    from less.IH [OF this(1) less.prems(1) this(2)]
    have inner: "makeRequest (site True) (D - 100) ''https://example.com/a'' timeout = None"
      "makeRequest (site True) (D - 100) ''https://example.com/b'' timeout = None"
      by simp_all
    from less.prems False have "\<not> timeout \<le> D - 100" by simp
    with less.prems(1) False inner show ?thesis
      by (simp add: makeRequest.simps [of "site True" D] site_defs
          within_def delayed_def settleFirst_def followUp_def)
  qed
qed

lemma site_cycle_request:
  "request (site True) (protocol \<lparr>protocol = ''https:'', hostname = ''example.com'',
       pathname = ''/a''\<rparr> = ''https:'') ''https://example.com/a'' 10000
     = Response 99 (Some 302) (Some ''https://example.com/b'') (TimeoutEvent 10000)"
  "redirectLocation (Some 302) (Some ''https://example.com/b'') = Some ''https://example.com/b''"
  "followUp 10000 (TimeoutEvent 10000) = Some (10000, Inl (timeoutError 10000))"
  "resolveUrl (site True) ''https://example.com/b'' ''https://example.com/a''
     = Some ''https://example.com/b''"
  by (simp_all add: site_defs followUp_def)

lemma site_cycle_times_out:
  "10100 \<le> D \<Longrightarrow> makeRequest (site True) D ''https://example.com/a'' 10000
     = Some (10100, Inl (timeoutError 10000))"
proof -
  assume D: "10100 \<le> D"
  have pending: "case resolveUrl (site True) ''https://example.com/b'' ''https://example.com/a'' of
      None \<Rightarrow> True | Some u \<Rightarrow> makeRequest (site True) 10000 u 10000 = None"
    using site_cycle_pending [of 10000 10000] by (simp add: site_cycle_request(4))
  from D have "Suc 99 + 10000 \<le> D" by simp
  from event_before_chain [OF site_parse(4) site_cycle_request(1,2,3) pending this]
  show ?thesis by simp
qed












lemma promiseAll_map_Some: "promiseAll (map Some rs) = Some rs"
  by (induction rs) simp_all

lemma promiseAll_Some_map: "promiseAll ps = Some rs \<Longrightarrow> ps = map Some rs"
  by (induction ps arbitrary: rs) (auto split: option.splits)

lemma promiseAll_Some: "promiseAll ps = Some rs \<longleftrightarrow> ps = map Some rs"
  using promiseAll_map_Some promiseAll_Some_map by blast

lemma promiseAll_None: "promiseAll ps = None \<longleftrightarrow> None \<in> set ps"
  by (induction ps) (auto split: option.splits)





text \<open>
  C8, as stated: \<^verbatim>\<open>checkUrls\<close> returns one result per input URL for every list. On
  a site that closes each connection after its response it returns nothing, at any time,
  for a list that holds a URL in a redirect cycle, although the other URL of the list has
  a result of its own.
\<close>

theorem checkUrls_blocked_by_cycle_counterexample:
  "checkUrl (site False) 100 ''https://example.com/ok'' None
     = Some \<lparr>res_url = ''https://example.com/ok'', res_accessible = True,
             res_statusCode = Some 200, res_error = None,
             res_severity = SevSuccess, res_message = ''Accessible''\<rparr>
   \<and> (\<forall>D. checkUrls (site False) D [''https://example.com/ok'', ''https://example.com/a'']
              None = None)"
  by (simp add: checkUrls_def site_check_ok site_check_cycle split: option.splits)

text \<open>
  C8, amended: at every moment \<^verbatim>\<open>checkUrls\<close> has resolved to a list exactly when
  that list holds, in the order of the input, the result that \<^verbatim>\<open>checkUrl\<close> has
  resolved to on each URL. So for every list of URLs (the empty list included) each of
  whose checks resolves, it returns exactly one result per URL, the i-th being the
  outcome of \<^verbatim>\<open>checkUrl\<close> on the i-th URL, whether that outcome is a success or a
  failure; and while the check of some URL is pending, and so forever when it never
  resolves, \<^verbatim>\<open>checkUrls\<close> does not resolve.
\<close>

theorem checkUrls_in_order:
  "checkUrls env D [] t = Some []
   \<and> (checkUrls env D urls t = Some rs
        \<longleftrightarrow> map (\<lambda>u. checkUrl env D u t) urls = map Some rs)
   \<and> ((\<forall>u \<in> set urls. checkUrl env D u t \<noteq> None) \<longrightarrow>
        (\<exists>rs. checkUrls env D urls t = Some rs \<and> length rs = length urls
           \<and> (\<forall>i < length urls. checkUrl env D (urls ! i) t = Some (rs ! i))))
   \<and> ((\<exists>u \<in> set urls. checkUrl env D u t = None) \<longrightarrow> checkUrls env D urls t = None)
   \<and> ((\<exists>u \<in> set urls. \<forall>D'. checkUrl env D' u t = None) \<longrightarrow>
        (\<forall>D'. checkUrls env D' urls t = None))"
proof (intro conjI impI)
  show "checkUrls env D [] t = Some []" by (simp add: checkUrls_def)
  show "checkUrls env D urls t = Some rs
      \<longleftrightarrow> map (\<lambda>u. checkUrl env D u t) urls = map Some rs"
    by (simp add: checkUrls_def promiseAll_Some)
next
  assume all: "\<forall>u \<in> set urls. checkUrl env D u t \<noteq> None"
  then have "checkUrls env D urls t \<noteq> None"
    by (auto simp: checkUrls_def promiseAll_None)
  then obtain rs where rs: "checkUrls env D urls t = Some rs" by blast
  then have m: "map (\<lambda>u. checkUrl env D u t) urls = map Some rs"
    by (simp add: checkUrls_def promiseAll_Some)
  then have len: "length rs = length urls"
    by (metis length_map)
  have "checkUrl env D (urls ! i) t = Some (rs ! i)" if "i < length urls" for i
    using that m len by (metis nth_map)
  with rs len show "\<exists>rs. checkUrls env D urls t = Some rs \<and> length rs = length urls
           \<and> (\<forall>i < length urls. checkUrl env D (urls ! i) t = Some (rs ! i))"
    by blast
next
  assume "\<exists>u \<in> set urls. checkUrl env D u t = None"
  then show "checkUrls env D urls t = None"
    by (force simp: checkUrls_def promiseAll_None)
next
  assume "\<exists>u \<in> set urls. \<forall>D'. checkUrl env D' u t = None"
  then obtain u where u: "u \<in> set urls" and never: "\<And>D'. checkUrl env D' u t = None"
    by blast
  show "\<forall>D'. checkUrls env D' urls t = None"
  proof
    fix D'
    from u never [of D'] have "None \<in> set (map (\<lambda>u. checkUrl env D' u t) urls)"
      by force
    then show "checkUrls env D' urls t = None"
      by (simp only: checkUrls_def promiseAll_None)
  qed
qed

theorem checkUrls_in_order_witness:
  "checkUrl (site True) 10100 ''https://example.com/ok'' None \<noteq> None
   \<and> checkUrl (site True) 10100 ''https://example.com/missing'' None \<noteq> None
   \<and> checkUrl (site True) 10100 ''https://example.com/a'' None \<noteq> None
   \<and> (\<exists>rs. checkUrls (site True) 10100
               [''https://example.com/ok'', ''https://example.com/a'',
                ''https://example.com/missing''] None = Some rs
         \<and> length rs = 3
         \<and> checkUrl (site True) 10100 ''https://example.com/ok'' None = Some (rs ! 0)
         \<and> checkUrl (site True) 10100 ''https://example.com/a'' None = Some (rs ! 1)
         \<and> checkUrl (site True) 10100 ''https://example.com/missing'' None = Some (rs ! 2))
   \<and> map_option res_severity (checkUrl (site True) 10100 ''https://example.com/a'' None)
       = Some SevError
   \<and> checkUrl (site True) 10099 ''https://example.com/a'' None = None
   \<and> checkUrls (site True) 10099
        [''https://example.com/ok'', ''https://example.com/a'', ''https://example.com/missing'']
        None = None
   \<and> (\<forall>D'. checkUrl (site False) D' ''https://example.com/a'' None = None)
   \<and> (\<forall>D'. checkUrls (site False) D' [''https://example.com/ok'', ''https://example.com/a'']
               None = None)"
proof -
  have t: "timeoutOf None = 10000"
    by (simp add: timeoutOf_def defaultTimeout_def)
  have ok: "checkUrl (site True) 10100 ''https://example.com/ok'' None
     = Some \<lparr>res_url = ''https://example.com/ok'', res_accessible = True,
             res_statusCode = Some 200, res_error = None,
             res_severity = SevSuccess, res_message = ''Accessible''\<rparr>"
    by (simp add: site_check_ok)
  have missing: "checkUrl (site True) 10100 ''https://example.com/missing'' None
     = Some \<lparr>res_url = ''https://example.com/missing'', res_accessible = False,
             res_statusCode = Some 404, res_error = Some ''Not Found'',
             res_severity = SevError, res_message = ''Not Found - URL is broken''\<rparr>"
    by (simp add: site_check_missing)
  have "makeRequest (site True) 10100 ''https://example.com/a'' (timeoutOf None)
      = Some (10100, Inl (timeoutError 10000))"
    by (simp add: t site_cycle_times_out)
  from checkUrl_settled [OF site_parse(4) site_https this]
  have cyc: "map_option res_severity (checkUrl (site True) 10100 ''https://example.com/a'' None)
      = Some SevError"
    by (simp add: spec_severity_def)
  then have cyc': "checkUrl (site True) 10100 ''https://example.com/a'' None \<noteq> None"
    by auto
  have "makeRequest (site True) 10099 ''https://example.com/a'' (timeoutOf None) = None"
    using site_cycle_pending [of 10000 10099] by (simp add: t)
  then have early: "checkUrl (site True) 10099 ''https://example.com/a'' None = None"
    by (simp add: checkUrl_pending [OF site_parse(4) site_https])
  have never: "\<forall>D'. checkUrl (site False) D' ''https://example.com/a'' None = None"
    by (simp add: site_check_cycle)
  note good = checkUrls_in_order [where env = "site True" and t = None and D = 10100
      and urls = "[''https://example.com/ok'', ''https://example.com/a'',
                   ''https://example.com/missing'']"]
  note pending = checkUrls_in_order [where env = "site True" and t = None and D = 10099
      and urls = "[''https://example.com/ok'', ''https://example.com/a'',
                   ''https://example.com/missing'']"]
  note bad = checkUrls_in_order [where env = "site False" and t = None
      and urls = "[''https://example.com/ok'', ''https://example.com/a'']"]
  have "\<forall>u \<in> set [''https://example.com/ok'', ''https://example.com/a'',
                   ''https://example.com/missing''].
          checkUrl (site True) 10100 u None \<noteq> None"
    using ok missing cyc' by simp
  with good obtain rs
    where rs: "checkUrls (site True) 10100 [''https://example.com/ok'', ''https://example.com/a'',
                   ''https://example.com/missing''] None = Some rs"
      and len: "length rs = length [''https://example.com/ok'', ''https://example.com/a'',
                   ''https://example.com/missing'']"
      and nth: "\<forall>i < length [''https://example.com/ok'', ''https://example.com/a'',
                   ''https://example.com/missing''].
          checkUrl (site True) 10100 ([''https://example.com/ok'', ''https://example.com/a'',
                   ''https://example.com/missing''] ! i) None = Some (rs ! i)"
    by blast
  from nth [rule_format, of 0]
  have n0: "checkUrl (site True) 10100 ''https://example.com/ok'' None = Some (rs ! 0)"
    by simp
  from nth [rule_format, of 1]
  have n1: "checkUrl (site True) 10100 ''https://example.com/a'' None = Some (rs ! 1)"
    by simp
  from nth [rule_format, of 2]
  have n2: "checkUrl (site True) 10100 ''https://example.com/missing'' None = Some (rs ! 2)"
    by simp
  from len have len3: "length rs = 3" by simp
  from rs len3 n0 n1 n2
  have ex: "\<exists>rs. checkUrls (site True) 10100
               [''https://example.com/ok'', ''https://example.com/a'',
                ''https://example.com/missing''] None = Some rs
         \<and> length rs = 3
         \<and> checkUrl (site True) 10100 ''https://example.com/ok'' None = Some (rs ! 0)
         \<and> checkUrl (site True) 10100 ''https://example.com/a'' None = Some (rs ! 1)
         \<and> checkUrl (site True) 10100 ''https://example.com/missing'' None = Some (rs ! 2)"
    by (intro exI [of _ rs] conjI)
  have "\<exists>u \<in> set [''https://example.com/ok'', ''https://example.com/a'',
                   ''https://example.com/missing''].
          checkUrl (site True) 10099 u None = None"
    using early by simp
  with pending have none: "checkUrls (site True) 10099
        [''https://example.com/ok'', ''https://example.com/a'', ''https://example.com/missing'']
        None = None"
    by blast
  have "\<exists>u \<in> set [''https://example.com/ok'', ''https://example.com/a''].
          \<forall>D'. checkUrl (site False) D' u None = None"
    using never by simp
  with bad have blocked: "\<forall>D'. checkUrls (site False) D'
      [''https://example.com/ok'', ''https://example.com/a''] None = None"
    by blast
  from ok missing have ok': "checkUrl (site True) 10100 ''https://example.com/ok'' None \<noteq> None"
    and missing': "checkUrl (site True) 10100 ''https://example.com/missing'' None \<noteq> None"
    by simp_all
  from ok' missing' cyc' ex cyc early none never blocked show ?thesis
    by (intro conjI)
qed






section \<open>The OLAF adapter: properties\<close>

lemma truthy_lacking: "truthy x \<longleftrightarrow> \<not> lacking x"
  by (auto simp: truthy_def lacking_def split: option.splits)

lemma fetchManifests_step:
  "fetchManifests env adapter owner repo (dir # dirs) bundles lg =
     (if spec_wellFormed (manifestAt env adapter owner repo dir)
      then fetchManifests env adapter owner repo dirs
             (bundles @ [spec_bundle env adapter owner repo dir]) lg
      else fetchManifests env adapter owner repo dirs bundles
             (lg @ [spec_warning env adapter owner repo dir]))"
proof (cases "manifestAt env adapter owner repo dir")
  case (Inl e)
  then show ?thesis
    by (simp add: manifestAt_def manifestUrlOf_def spec_wellFormed_def spec_warning_def Let_def)
next
  case (Inr m)
  then show ?thesis
    by (cases m)
       (auto simp: manifestAt_def manifestUrlOf_def spec_wellFormed_def spec_warning_def
          spec_bundle_def truthy_def lacking_def manifestField_def Let_def
          split: option.splits)
qed

lemma fetchManifests_result:
  "fetchManifests env adapter owner repo dirs bundles lg =
     (bundles @ map (spec_bundle env adapter owner repo)
                  (filter (\<lambda>d. spec_wellFormed (manifestAt env adapter owner repo d)) dirs),
      lg @ map (spec_warning env adapter owner repo)
             (filter (\<lambda>d. \<not> spec_wellFormed (manifestAt env adapter owner repo d)) dirs))"
proof (induction dirs arbitrary: bundles lg)
  case Nil
  show ?case by simp
next
  case (Cons dir dirs)
  show ?case
    unfolding fetchManifests_step by (simp add: Cons.IH)
qed

lemma fetchBundles_fetched:
  assumes "\<not> cacheFresh env adapter"
    and "parseGitHubUrl env (src_url (adapterSource adapter)) = Inr (owner, repo)"
    and "fetchGitTree env adapter owner repo (olaf_branch (adapterConfig adapter)) = Inr gitTree"
  shows "fetchBundles env adapter lg =
     (map (spec_bundle env adapter owner repo)
        (filter (\<lambda>d. spec_wellFormed (manifestAt env adapter owner repo d))
           (locatedDirs adapter gitTree)),
      adapter\<lparr>adapterCache := Some (dateNow env,
        map (spec_bundle env adapter owner repo)
          (filter (\<lambda>d. spec_wellFormed (manifestAt env adapter owner repo d))
             (locatedDirs adapter gitTree)))\<rparr>,
      lg @ map (spec_warning env adapter owner repo)
             (filter (\<lambda>d. \<not> spec_wellFormed (manifestAt env adapter owner repo d))
                (locatedDirs adapter gitTree)))"
  using assms
  by (simp add: fetchBundles_def Let_def fetchManifests_result locatedDirs_def)

text \<open>
  C7: \<^verbatim>\<open>fetchBundles\<close> has no failing outcome, and once the tree of the repository has
  been listed (no fresh cache, a GitHub URL, a tree response) it returns, in the order of
  the located manifests, exactly one Bundle for every well-formed manifest, carrying that
  manifest's id. Every other located manifest (one that fails to fetch, fails to parse
  as JSON, or lacks an id, a name or a version) is skipped with one warning in the log,
  so that bundles and warnings together account for every located manifest.
\<close>

theorem fetchBundles_skips_malformed_manifests:
  "\<not> cacheFresh env adapter
   \<and> parseGitHubUrl env (src_url (adapterSource adapter)) = Inr (owner, repo)
   \<and> fetchGitTree env adapter owner repo (olaf_branch (adapterConfig adapter)) = Inr gitTree
   \<longrightarrow>
     fst (fetchBundles env adapter lg)
       = map (spec_bundle env adapter owner repo)
           (filter (\<lambda>d. spec_wellFormed (manifestAt env adapter owner repo d))
              (locatedDirs adapter gitTree))
     \<and> snd (snd (fetchBundles env adapter lg))
       = lg @ map (spec_warning env adapter owner repo)
                (filter (\<lambda>d. \<not> spec_wellFormed (manifestAt env adapter owner repo d))
                   (locatedDirs adapter gitTree))
     \<and> length (fst (fetchBundles env adapter lg))
         + (length (snd (snd (fetchBundles env adapter lg))) - length lg)
       = length (locatedDirs adapter gitTree)
     \<and> (\<forall>d \<in> set (locatedDirs adapter gitTree).
           spec_wellFormed (manifestAt env adapter owner repo d) \<longrightarrow>
             spec_bundle env adapter owner repo d \<in> set (fst (fetchBundles env adapter lg))
             \<and> Some (bundle_id (spec_bundle env adapter owner repo d))
                 = manifestField manifest_id
                     (case manifestAt env adapter owner repo d of Inl e \<Rightarrow> None | Inr m \<Rightarrow> m))
     \<and> (\<forall>d \<in> set (locatedDirs adapter gitTree).
           \<not> spec_wellFormed (manifestAt env adapter owner repo d) \<longrightarrow>
             spec_warning env adapter owner repo d \<in> set (snd (snd (fetchBundles env adapter lg)))
             \<and> fst (spec_warning env adapter owner repo d) = LogWarn)"
proof (intro impI)
  assume "\<not> cacheFresh env adapter
   \<and> parseGitHubUrl env (src_url (adapterSource adapter)) = Inr (owner, repo)
   \<and> fetchGitTree env adapter owner repo (olaf_branch (adapterConfig adapter)) = Inr gitTree"
  then have r: "fetchBundles env adapter lg =
     (map (spec_bundle env adapter owner repo)
        (filter (\<lambda>d. spec_wellFormed (manifestAt env adapter owner repo d))
           (locatedDirs adapter gitTree)),
      adapter\<lparr>adapterCache := Some (dateNow env,
        map (spec_bundle env adapter owner repo)
          (filter (\<lambda>d. spec_wellFormed (manifestAt env adapter owner repo d))
             (locatedDirs adapter gitTree)))\<rparr>,
      lg @ map (spec_warning env adapter owner repo)
             (filter (\<lambda>d. \<not> spec_wellFormed (manifestAt env adapter owner repo d))
                (locatedDirs adapter gitTree)))"
    using fetchBundles_fetched by blast
  have count: "length (filter P xs) + length (filter (\<lambda>x. \<not> P x) xs) = length xs"
    for P :: "string \<Rightarrow> bool" and xs
    by (rule sum_length_filter_compl)
  have ident: "Some (bundle_id (spec_bundle env adapter owner repo d))
                 = manifestField manifest_id
                     (case manifestAt env adapter owner repo d of Inl e \<Rightarrow> None | Inr m \<Rightarrow> m)"
    if "spec_wellFormed (manifestAt env adapter owner repo d)" for d
    using that
    by (auto simp: spec_wellFormed_def spec_bundle_def manifestBundle_def manifestField_def
        valueOf_def lacking_def split: sum.splits option.splits)
  show "fst (fetchBundles env adapter lg)
       = map (spec_bundle env adapter owner repo)
           (filter (\<lambda>d. spec_wellFormed (manifestAt env adapter owner repo d))
              (locatedDirs adapter gitTree))
     \<and> snd (snd (fetchBundles env adapter lg))
       = lg @ map (spec_warning env adapter owner repo)
                (filter (\<lambda>d. \<not> spec_wellFormed (manifestAt env adapter owner repo d))
                   (locatedDirs adapter gitTree))
     \<and> length (fst (fetchBundles env adapter lg))
         + (length (snd (snd (fetchBundles env adapter lg))) - length lg)
       = length (locatedDirs adapter gitTree)
     \<and> (\<forall>d \<in> set (locatedDirs adapter gitTree).
           spec_wellFormed (manifestAt env adapter owner repo d) \<longrightarrow>
             spec_bundle env adapter owner repo d \<in> set (fst (fetchBundles env adapter lg))
             \<and> Some (bundle_id (spec_bundle env adapter owner repo d))
                 = manifestField manifest_id
                     (case manifestAt env adapter owner repo d of Inl e \<Rightarrow> None | Inr m \<Rightarrow> m))
     \<and> (\<forall>d \<in> set (locatedDirs adapter gitTree).
           \<not> spec_wellFormed (manifestAt env adapter owner repo d) \<longrightarrow>
             spec_warning env adapter owner repo d \<in> set (snd (snd (fetchBundles env adapter lg)))
             \<and> fst (spec_warning env adapter owner repo d) = LogWarn)"
    unfolding r using ident
    by (simp add: count spec_warning_def)
qed

theorem fetchBundles_skips_malformed_manifests_witness:
  "\<not> cacheFresh exampleRepo exampleAdapter
   \<and> parseGitHubUrl exampleRepo (src_url (adapterSource exampleAdapter)) = Inr (''owner'', ''repo'')
   \<and> fetchGitTree exampleRepo exampleAdapter ''owner'' ''repo''
        (olaf_branch (adapterConfig exampleAdapter)) = Inr exampleTree
   \<and> locatedDirs exampleAdapter exampleTree
       = [''olaf-core/competencies/dev/review'', ''olaf-core/competencies/dev/gone'',
          ''olaf-core/competencies/dev/broken'', ''olaf-core/competencies/pm/plan'']
   \<and> map bundle_id (fst (fetchBundles exampleRepo exampleAdapter [])) = [''review'']
   \<and> snd (snd (fetchBundles exampleRepo exampleAdapter []))
       = [(LogWarn, ''Failed parsing manifest for olaf-core/competencies/dev/gone:''),
          (LogWarn, ''Failed parsing manifest for olaf-core/competencies/dev/broken:''),
          (LogWarn, ''Skipping invalid competency at olaf-core/competencies/pm/plan'')]"
proof -
  have stale: "\<not> cacheFresh exampleRepo exampleAdapter"
    by (simp add: cacheFresh_def exampleAdapter_def)
  have repo: "parseGitHubUrl exampleRepo (src_url (adapterSource exampleAdapter))
      = Inr (''owner'', ''repo'')"
    by code_simp
  have listing: "fetchGitTree exampleRepo exampleAdapter ''owner'' ''repo''
        (olaf_branch (adapterConfig exampleAdapter)) = Inr exampleTree"
    by code_simp
  have dirs: "locatedDirs exampleAdapter exampleTree
       = [''olaf-core/competencies/dev/review'', ''olaf-core/competencies/dev/gone'',
          ''olaf-core/competencies/dev/broken'', ''olaf-core/competencies/pm/plan'']"
    by code_simp
  have wf: "spec_wellFormed (manifestAt exampleRepo exampleAdapter ''owner'' ''repo''
              ''olaf-core/competencies/dev/review'')"
    "\<not> spec_wellFormed (manifestAt exampleRepo exampleAdapter ''owner'' ''repo''
              ''olaf-core/competencies/dev/gone'')"
    "\<not> spec_wellFormed (manifestAt exampleRepo exampleAdapter ''owner'' ''repo''
              ''olaf-core/competencies/dev/broken'')"
    "\<not> spec_wellFormed (manifestAt exampleRepo exampleAdapter ''owner'' ''repo''
              ''olaf-core/competencies/pm/plan'')"
    by code_simp+
  have ident: "bundle_id (spec_bundle exampleRepo exampleAdapter ''owner'' ''repo''
              ''olaf-core/competencies/dev/review'') = ''review''"
    by code_simp
  have warn: "spec_warning exampleRepo exampleAdapter ''owner'' ''repo''
        ''olaf-core/competencies/dev/gone''
      = (LogWarn, ''Failed parsing manifest for olaf-core/competencies/dev/gone:'')"
    "spec_warning exampleRepo exampleAdapter ''owner'' ''repo''
        ''olaf-core/competencies/dev/broken''
      = (LogWarn, ''Failed parsing manifest for olaf-core/competencies/dev/broken:'')"
    "spec_warning exampleRepo exampleAdapter ''owner'' ''repo''
        ''olaf-core/competencies/pm/plan''
      = (LogWarn, ''Skipping invalid competency at olaf-core/competencies/pm/plan'')"
    by code_simp+
  note inst = fetchBundles_skips_malformed_manifests
    [where env = exampleRepo and adapter = exampleAdapter and owner = "''owner''"
       and repo = "''repo''" and gitTree = exampleTree and lg = "[]", rule_format,
     OF conjI, OF stale conjI, OF repo listing]
  have bundles: "map bundle_id (fst (fetchBundles exampleRepo exampleAdapter [])) = [''review'']"
    using inst [THEN conjunct1] by (simp add: dirs wf ident)
  have warnings: "snd (snd (fetchBundles exampleRepo exampleAdapter []))
       = [(LogWarn, ''Failed parsing manifest for olaf-core/competencies/dev/gone:''),
          (LogWarn, ''Failed parsing manifest for olaf-core/competencies/dev/broken:''),
          (LogWarn, ''Skipping invalid competency at olaf-core/competencies/pm/plan'')]"
    using inst [THEN conjunct2, THEN conjunct1] by (simp add: dirs wf warn)
  show ?thesis
    using stale repo listing dirs bundles warnings by (intro conjI)
qed

text \<open>
  C10: \<^verbatim>\<open>downloadBundle\<close> resolves to the empty buffer, of zero bytes, for every bundle
  and every state of the adapter: whatever calls it to install receives no content.
\<close>

theorem downloadBundle_is_empty:
  "downloadBundle adapter bundle = [] \<and> length (downloadBundle adapter bundle) = 0"
  by (simp add: downloadBundle_def bufferFrom_def)

end
